theory Spec2Isabelle
  imports Main "HOL-Library.AList"
begin

section \<open>Python text\<close>

text \<open>
  A Python \<open>str\<close> is modelled as a \<open>string\<close>, one \<open>char\<close> per code point, for text
  whose code points are below 256. The operations below are the \<open>str\<close> methods the
  sources call, each for the argument shapes the sources use.
\<close>

text \<open>\<open>c.isspace()\<close> for a code point below 256.\<close>

definition isspace :: "char \<Rightarrow> bool" where
  "isspace c =
     (let n = (of_char c :: nat)
      in (9 \<le> n \<and> n \<le> 13) \<or> (28 \<le> n \<and> n \<le> 32) \<or> n = 133 \<or> n = 160)"

text \<open>\<open>s.strip(chars)\<close>, the set of characters given as a predicate.\<close>

definition strip_chars :: "(char \<Rightarrow> bool) \<Rightarrow> string \<Rightarrow> string" where
  "strip_chars P s = rev (dropWhile P (rev (dropWhile P s)))"

text \<open>\<open>s.strip()\<close>.\<close>

definition strip :: "string \<Rightarrow> string" where
  "strip s = strip_chars isspace s"

text \<open>\<open>s.strip('"\'')\<close>: the double quote is code point 0x22, the single quote 0x27.\<close>

definition strip_quotes :: "string \<Rightarrow> string" where
  "strip_quotes s = strip_chars (\<lambda>c. c = CHR 0x22 \<or> c = CHR 0x27) s"

text \<open>\<open>s.startswith(p)\<close>.\<close>

definition startswith :: "string \<Rightarrow> string \<Rightarrow> bool" where
  "startswith s p = (take (length p) s = p)"

text \<open>\<open>sub in s\<close> for two strings.\<close>

fun contains :: "string \<Rightarrow> string \<Rightarrow> bool" where
  "contains [] sub = (sub = [])"
| "contains (x # xs) sub = (startswith (x # xs) sub \<or> contains xs sub)"

text \<open>\<open>s.split(c)\<close> for a separator of one character: never an empty list.\<close>

fun split_sep :: "char \<Rightarrow> string \<Rightarrow> string list" where
  "split_sep c [] = [[]]"
| "split_sep c (x # xs) =
     (if x = c then [] # split_sep c xs
      else (case split_sep c xs of [] \<Rightarrow> [[x]] | w # ws \<Rightarrow> (x # w) # ws))"

text \<open>
  \<open>a, b = s.split(c, 1)\<close> for a string \<open>s\<close> that contains \<open>c\<close> (the sources test
  this before they unpack): the text before the first \<open>c\<close> and the text after it.
\<close>

definition split_once :: "char \<Rightarrow> string \<Rightarrow> string \<times> string" where
  "split_once c s = (takeWhile (\<lambda>x. x \<noteq> c) s, drop 1 (dropWhile (\<lambda>x. x \<noteq> c) s))"

text \<open>\<open>sep.join(xs)\<close>.\<close>

fun join :: "string \<Rightarrow> string list \<Rightarrow> string" where
  "join sep [] = []"
| "join sep [x] = x"
| "join sep (x # y # ys) = x @ sep @ join sep (y # ys)"

text \<open>\<open>s.lower()\<close> for code points below 256: A-Z and the capital letters 0xC0-0xDE
  (0xD7, the multiplication sign, apart) move up by 32.\<close>

definition lower_char :: "char \<Rightarrow> char" where
  "lower_char c =
     (let n = (of_char c :: nat)
      in if (65 \<le> n \<and> n \<le> 90) \<or> (192 \<le> n \<and> n \<le> 222 \<and> n \<noteq> 215)
         then char_of (n + 32) else c)"

definition lower :: "string \<Rightarrow> string" where
  "lower s = map lower_char s"

text \<open>\<open>str(n)\<close> for a natural number and for an integer.\<close>

fun str_nat :: "nat \<Rightarrow> string" where
  "str_nat n =
     (if n < 10 then [char_of (48 + n)]
      else str_nat (n div 10) @ [char_of (48 + n mod 10)])"

declare str_nat.simps [simp del]

definition str_int :: "int \<Rightarrow> string" where
  "str_int i = (if i < 0 then CHR ''-'' # str_nat (nat (- i)) else str_nat (nat i))"

text \<open>The line feed, \<open>'\n'\<close>.\<close>

definition nl :: char where
  "nl = CHR 0x0A"

section \<open>Exceptions\<close>

text \<open>
  The subclasses of \<open>Exception\<close>, each with its message: the classes the sources raise
  or catch by name (\<open>TimeoutExpired\<close> is the one of \<open>subprocess\<close>), and \<open>Foreign cls msg\<close> for an exception of class \<open>cls\<close> raised by a
  library or by plugin code. \<open>str_exn\<close> is \<open>str(e)\<close>, what an f-string prints for
  \<open>{e}\<close>.
\<close>

datatype exn =
    ValueError string
  | TimeoutError string
  | TimeoutExpired string
  | Exception string
  | Foreign string string

fun str_exn :: "exn \<Rightarrow> string" where
  "str_exn (ValueError m) = m"
| "str_exn (TimeoutError m) = m"
| "str_exn (TimeoutExpired m) = m"
| "str_exn (Exception m) = m"
| "str_exn (Foreign c m) = m"

section \<open>The plugin directory on disk\<close>

text \<open>
  The file system is the outside of the program and is modelled, not translated. A path
  is the list of its components; \<open>plugin_dir / name\<close> appends one component. A file is
  known by what the two readers of the sources make of its text: \<open>as_manifest\<close> is the
  outcome of \<open>json.load\<close> followed by \<open>PluginManifest(**manifest_data)\<close> (an
  exception for text that is not JSON or has not the fields of a manifest), and
  \<open>as_module\<close> the outcome of \<open>spec.loader.exec_module\<close> on it. \<open>denied\<close> holds
  the paths the operating system lets the process neither read nor write. An operation
  succeeds as a whole or fails as a whole, and the message of its exception is kept as
  the path alone.
\<close>

record manifest =
  name :: string
  version :: string
  description :: string
  entry_point :: string
  permissions :: "string list"
  dependencies :: "string list"
  enabled :: bool

type_synonym kwargs = "(string \<times> string) list"

text \<open>
  What a call of a plugin function does: it runs for so many seconds and then returns a
  value (kept as the text \<open>str\<close> makes of it) or raises. A module is the map of its
  attributes; an attribute that is no function is a callable that raises \<open>TypeError\<close>.
  What plugin code does to the outside is not tracked.
\<close>

datatype run = Run nat "exn + string"

type_synonym callable = "kwargs \<Rightarrow> run"

type_synonym pymodule = "string \<rightharpoonup> callable"

record content =
  as_manifest :: "exn + manifest"
  as_module :: "exn + pymodule"

datatype node = Dir | File content

type_synonym path = "string list"

record fs =
  nodes :: "(path \<times> node) list"
  denied :: "path \<Rightarrow> bool"

definition str_path :: "path \<Rightarrow> string" where
  "str_path p = join ''/'' p"

definition lookup :: "fs \<Rightarrow> path \<Rightarrow> node option" where
  "lookup d p = map_of (nodes d) p"

text \<open>\<open>p.exists()\<close> and \<open>p.is_dir()\<close>.\<close>

definition exists :: "fs \<Rightarrow> path \<Rightarrow> bool" where
  "exists d p = (case lookup d p of None \<Rightarrow> False | Some n \<Rightarrow> True)"

definition is_dir :: "fs \<Rightarrow> path \<Rightarrow> bool" where
  "is_dir d p = (case lookup d p of Some Dir \<Rightarrow> True | _ \<Rightarrow> False)"

definition is_file :: "fs \<Rightarrow> path \<Rightarrow> bool" where
  "is_file d p = (case lookup d p of Some (File f) \<Rightarrow> True | _ \<Rightarrow> False)"

text \<open>\<open>p.iterdir()\<close>: the entries directly below a directory.\<close>

definition iterdir :: "fs \<Rightarrow> path \<Rightarrow> exn + path list" where
  "iterdir d p =
     (case lookup d p of
        None \<Rightarrow> Inl (Foreign ''FileNotFoundError'' (str_path p))
      | Some (File f) \<Rightarrow> Inl (Foreign ''NotADirectoryError'' (str_path p))
      | Some Dir \<Rightarrow>
          if denied d p then Inl (Foreign ''PermissionError'' (str_path p))
          else Inr (remdups (filter (\<lambda>q. q \<noteq> [] \<and> butlast q = p) (map fst (nodes d)))))"

text \<open>\<open>open(p, 'r')\<close> and reading the whole file.\<close>

definition read_file :: "fs \<Rightarrow> path \<Rightarrow> exn + content" where
  "read_file d p =
     (case lookup d p of
        None \<Rightarrow> Inl (Foreign ''FileNotFoundError'' (str_path p))
      | Some Dir \<Rightarrow> Inl (Foreign ''IsADirectoryError'' (str_path p))
      | Some (File f) \<Rightarrow>
          if denied d p then Inl (Foreign ''PermissionError'' (str_path p)) else Inr f)"

text \<open>
  \<open>open(p, 'w')\<close> and writing the whole file: the directory of \<open>p\<close> must be there, and
  \<open>p\<close> itself no directory. A failed \<open>open\<close> leaves the disk as it was.
\<close>

definition write_file :: "fs \<Rightarrow> path \<Rightarrow> content \<Rightarrow> exn + fs" where
  "write_file d p f =
     (if p = [] \<or> \<not> is_dir d (butlast p)
        then Inl (Foreign ''FileNotFoundError'' (str_path p))
      else if is_dir d p then Inl (Foreign ''IsADirectoryError'' (str_path p))
      else if denied d p then Inl (Foreign ''PermissionError'' (str_path p))
      else Inr (d\<lparr>nodes := AList.update p (File f) (nodes d)\<rparr>))"

text \<open>\<open>shutil.rmtree(p)\<close>: all or nothing.\<close>

definition rmtree :: "fs \<Rightarrow> path \<Rightarrow> exn + fs" where
  "rmtree d p =
     (case lookup d p of
        None \<Rightarrow> Inl (Foreign ''FileNotFoundError'' (str_path p))
      | Some (File f) \<Rightarrow> Inl (Foreign ''NotADirectoryError'' (str_path p))
      | Some Dir \<Rightarrow>
          if denied d p then Inl (Foreign ''PermissionError'' (str_path p))
          else Inr (d\<lparr>nodes := filter (\<lambda>(q, n). take (length p) q \<noteq> p) (nodes d)\<rparr>))"

text \<open>
  \<open>shutil.copytree(src, dst)\<close>, all or nothing: \<open>src\<close> must be a directory, \<open>dst\<close>
  must not exist, and the missing directories above \<open>dst\<close> are made.
\<close>

definition ancestors :: "path \<Rightarrow> path list" where
  "ancestors p = map (\<lambda>n. take n p) [0..<length p]"

definition copytree :: "fs \<Rightarrow> path \<Rightarrow> path \<Rightarrow> exn + fs" where
  "copytree d src dst =
     (case lookup d src of
        None \<Rightarrow> Inl (Foreign ''FileNotFoundError'' (str_path src))
      | Some (File f) \<Rightarrow> Inl (Foreign ''NotADirectoryError'' (str_path src))
      | Some Dir \<Rightarrow>
          if denied d src then Inl (Foreign ''PermissionError'' (str_path src))
          else if exists d dst then Inl (Foreign ''FileExistsError'' (str_path dst))
          else if denied d dst then Inl (Foreign ''PermissionError'' (str_path dst))
          else if list_ex (is_file d) (ancestors dst)
            then Inl (Foreign ''NotADirectoryError'' (str_path dst))
          else Inr (d\<lparr>nodes :=
                 map (\<lambda>(q, n). (dst @ drop (length src) q, n))
                   (filter (\<lambda>(q, n). take (length src) q = src) (nodes d))
                 @ map (\<lambda>q. (q, Dir)) (filter (\<lambda>q. \<not> exists d q) (ancestors dst))
                 @ nodes d\<rparr>))"

text \<open>
  \<open>json.dump(manifest.__dict__, f, indent=2)\<close>: read back it gives the manifest; run as
  Python it raises, since it spells the \<open>enabled\<close> flag \<open>true\<close> or \<open>false\<close>.
\<close>

definition json_dump :: "manifest \<Rightarrow> content" where
  "json_dump m =
     \<lparr>as_manifest = Inr m,
      as_module = Inl (Foreign ''NameError''
        (''name '' @ [CHR 0x27] @ (if enabled m then ''true'' else ''false'') @ [CHR 0x27]
           @ '' is not defined''))\<rparr>"

section \<open>The plugin registry: \<open>PluginExecutor\<close>\<close>

text \<open>
  The state a method of \<open>PluginExecutor\<close> works on. \<open>plugin_dir\<close>, \<open>timeout\<close>,
  \<open>plugins\<close> and \<open>plugin_modules\<close> are the attributes of \<open>self\<close>, the two
  dictionaries as association lists in the order of their keys: \<open>map_of\<close> reads a
  key, \<open>AList.update\<close> stores one and \<open>AList.delete\<close> is \<open>del\<close>. The rest is the
  outside the methods act on: the \<open>disk\<close>; \<open>procs\<close>, the commands handed to
  \<open>subprocess.run\<close> so far, oldest first, and \<open>subprocess_run\<close>, what the operating
  system answers to a command after those; \<open>log\<close>, the lines given to the logger.
\<close>

datatype level = DEBUG | INFO | WARNING | ERROR

text \<open>
  What \<open>subprocess.run\<close> does with a command: the process ends with a return code,
  its output and its error output, or the call raises.
\<close>

datatype proc = Completed int string string | Raised exn

record executor =
  plugin_dir :: path
  timeout :: nat
  plugins :: "(string \<times> manifest) list"
  plugin_modules :: "(string \<times> pymodule) list"
  disk :: fs
  procs :: "string list"
  subprocess_run :: "string list \<Rightarrow> string \<Rightarrow> proc"
  log :: "(level \<times> string) list"

definition logger :: "level \<Rightarrow> string \<Rightarrow> executor \<Rightarrow> executor" where
  "logger lv msg s = s\<lparr>log := log s @ [(lv, msg)]\<rparr>"

text \<open>
  Lines 81 to 89 of \<open>_load_plugin_module\<close>: the file at the entry point imported as a
  module.
\<close>

definition exec_module :: "fs \<Rightarrow> path \<Rightarrow> exn + pymodule" where
  "exec_module d p = (case read_file d p of Inl e \<Rightarrow> Inl e | Inr f \<Rightarrow> as_module f)"

text \<open>
  Every method below that is a \<open>try\<close> with an \<open>except Exception\<close> is two definitions:
  the body of the \<open>try\<close>, which returns \<open>Inl e\<close> with the state reached where the
  source raises \<open>e\<close>, and the method, which adds the \<open>except\<close> clause.
\<close>

definition load_plugin_module_body ::
    "path \<Rightarrow> manifest \<Rightarrow> executor \<Rightarrow> (exn + unit) \<times> executor" where
  "load_plugin_module_body plugin_path m s =
     (let entry_file = plugin_path @ [entry_point m]
      in if \<not> exists (disk s) entry_file
         then (Inr (), logger ERROR (''Plugin entry point not found: '' @ str_path entry_file) s)
         else (case exec_module (disk s) entry_file of
                 Inl e \<Rightarrow> (Inl e, s)
               | Inr md \<Rightarrow>
                   (Inr (), logger DEBUG (''Loaded plugin module: '' @ name m)
                      (s\<lparr>plugin_modules := AList.update (name m) md (plugin_modules s)\<rparr>))))"

definition load_plugin_module :: "path \<Rightarrow> manifest \<Rightarrow> executor \<Rightarrow> executor" where
  "load_plugin_module plugin_path m s =
     (case load_plugin_module_body plugin_path m s of
        (Inr u, s') \<Rightarrow> s'
      | (Inl e, s') \<Rightarrow>
          logger ERROR (''Failed to load plugin module '' @ name m @ '': '' @ str_exn e) s')"

text \<open>\<open>json.load\<close> of a manifest file and \<open>PluginManifest(**manifest_data)\<close>.\<close>

definition read_manifest :: "fs \<Rightarrow> path \<Rightarrow> exn + manifest" where
  "read_manifest d p = (case read_file d p of Inl e \<Rightarrow> Inl e | Inr f \<Rightarrow> as_manifest f)"

definition load_plugin_body :: "path \<Rightarrow> executor \<Rightarrow> (exn + unit) \<times> executor" where
  "load_plugin_body plugin_path s =
     (let manifest_file = plugin_path @ [''manifest.json'']
      in case read_manifest (disk s) manifest_file of
           Inl e \<Rightarrow> (Inl e, s)
         | Inr m \<Rightarrow>
             (let s1 = s\<lparr>plugins := AList.update (name m) m (plugins s)\<rparr>;
                  s2 = (if enabled m then load_plugin_module plugin_path m s1 else s1)
              in (Inr (), logger DEBUG (''Loaded plugin: '' @ name m) s2)))"

definition load_plugin :: "path \<Rightarrow> executor \<Rightarrow> executor" where
  "load_plugin plugin_path s =
     (case load_plugin_body plugin_path s of
        (Inr u, s') \<Rightarrow> s'
      | (Inl e, s') \<Rightarrow>
          logger ERROR (''Failed to load plugin from '' @ str_path plugin_path @ '': ''
                         @ str_exn e) s')"

text \<open>The loop of \<open>_load_plugins\<close> over the entries of the plugin directory.\<close>

fun load_each :: "path list \<Rightarrow> executor \<Rightarrow> executor" where
  "load_each [] s = s"
| "load_each (plugin_path # rest) s =
     (if is_dir (disk s) plugin_path \<and> exists (disk s) (plugin_path @ [''manifest.json''])
      then load_each rest (load_plugin plugin_path s)
      else load_each rest s)"

definition load_plugins_body :: "executor \<Rightarrow> (exn + unit) \<times> executor" where
  "load_plugins_body s =
     (case iterdir (disk s) (plugin_dir s) of
        Inl e \<Rightarrow> (Inl e, s)
      | Inr entries \<Rightarrow> (Inr (), load_each entries s))"

definition load_plugins :: "executor \<Rightarrow> executor" where
  "load_plugins s =
     (case load_plugins_body s of
        (Inr u, s') \<Rightarrow> s'
      | (Inl e, s') \<Rightarrow> logger ERROR (''Failed to load plugins: '' @ str_exn e) s')"

definition list_plugins :: "executor \<Rightarrow> (string \<times> bool) list" where
  "list_plugins s = map (\<lambda>(nm, m). (nm, enabled m)) (plugins s)"


text \<open>\<open>p.mkdir(parents=True, exist_ok=True)\<close>.\<close>

definition mkdir_p :: "fs \<Rightarrow> path \<Rightarrow> exn + fs" where
  "mkdir_p d p =
     (case lookup d p of
        Some Dir \<Rightarrow> Inr d
      | Some (File f) \<Rightarrow> Inl (Foreign ''FileExistsError'' (str_path p))
      | None \<Rightarrow>
          if list_ex (is_file d) (ancestors p)
            then Inl (Foreign ''NotADirectoryError'' (str_path p))
          else if denied d p then Inl (Foreign ''PermissionError'' (str_path p))
          else Inr (d\<lparr>nodes :=
                 map (\<lambda>q. (q, Dir)) (filter (\<lambda>q. \<not> exists d q) (ancestors p @ [p]))
                 @ nodes d\<rparr>))"

text \<open>
  \<open>__init__\<close>, given what the configuration holds for the plugin directory and the
  timeout, the disk and the operating system: it has no \<open>try\<close> of its own.
\<close>

definition init ::
    "path \<Rightarrow> nat \<Rightarrow> fs \<Rightarrow> (string list \<Rightarrow> string \<Rightarrow> proc) \<Rightarrow> exn + executor" where
  "init dir limit d os =
     (case mkdir_p d dir of
        Inl e \<Rightarrow> Inl e
      | Inr d1 \<Rightarrow>
          (let s = load_plugins
                     \<lparr>plugin_dir = dir, timeout = limit, plugins = [],
                      plugin_modules = [], disk = d1, procs = [],
                      subprocess_run = os, log = []\<rparr>
           in Inr (logger INFO (''Plugin executor initialized with ''
                     @ str_nat (length (plugins s)) @ '' plugins'') s)))"

text \<open>
  \<open>toggle_plugin\<close>. The manifest is an object the registry holds, so
  \<open>manifest.enabled = enabled\<close> changes the entry of \<open>self.plugins\<close> at once, before
  the file is opened.
\<close>

definition toggle_plugin_body ::
    "string \<Rightarrow> bool \<Rightarrow> executor \<Rightarrow> (exn + bool) \<times> executor" where
  "toggle_plugin_body nm en s =
     (case map_of (plugins s) nm of
        None \<Rightarrow> (Inr False, logger ERROR (''Plugin not found: '' @ nm) s)
      | Some m0 \<Rightarrow>
          (let m = m0\<lparr>enabled := en\<rparr>;
               s1 = s\<lparr>plugins := AList.update nm m (plugins s)\<rparr>;
               plugin_path = plugin_dir s @ [nm];
               manifest_file = plugin_path @ [''manifest.json'']
           in case write_file (disk s1) manifest_file (json_dump m) of
                Inl e \<Rightarrow> (Inl e, s1)
              | Inr d \<Rightarrow>
                  (let s2 = s1\<lparr>disk := d\<rparr>;
                       s3 = (if en \<and> nm \<notin> set (map fst (plugin_modules s2))
                               then load_plugin_module plugin_path m s2
                             else if \<not> en \<and> nm \<in> set (map fst (plugin_modules s2))
                               then s2\<lparr>plugin_modules := AList.delete nm (plugin_modules s2)\<rparr>
                             else s2)
                   in (Inr True,
                       logger INFO (''Plugin '' @ nm @ '' ''
                         @ (if en then ''enabled'' else ''disabled'')) s3))))"

definition toggle_plugin :: "string \<Rightarrow> bool \<Rightarrow> executor \<Rightarrow> bool \<times> executor" where
  "toggle_plugin nm en s =
     (case toggle_plugin_body nm en s of
        (Inr b, s') \<Rightarrow> (b, s')
      | (Inl e, s') \<Rightarrow>
          (False, logger ERROR (''Failed to toggle plugin '' @ nm @ '': '' @ str_exn e) s'))"

text \<open>\<open>install_plugin\<close>, the source given as a path.\<close>

definition install_plugin_body :: "path \<Rightarrow> executor \<Rightarrow> (exn + bool) \<times> executor" where
  "install_plugin_body source s =
     (if \<not> exists (disk s) source
        then (Inr False, logger ERROR (''Plugin source not found: '' @ str_path source) s)
      else
        (let manifest_file = source @ [''manifest.json'']
         in if \<not> exists (disk s) manifest_file
              then (Inr False,
                    logger ERROR (''Plugin manifest not found: '' @ str_path manifest_file) s)
            else (case read_manifest (disk s) manifest_file of
                Inl e \<Rightarrow> (Inl e, s)
              | Inr m \<Rightarrow>
                  (let s1 = (if name m \<in> set (map fst (plugins s))
                               then logger WARNING (''Plugin '' @ name m
                                      @ '' already exists, updating...'') s
                             else s);
                       target_path = plugin_dir s @ [name m]
                   in case (if exists (disk s1) target_path then rmtree (disk s1) target_path
                            else Inr (disk s1)) of
                        Inl e \<Rightarrow> (Inl e, s1)
                      | Inr d1 \<Rightarrow>
                          (case copytree d1 source target_path of
                             Inl e \<Rightarrow> (Inl e, s1\<lparr>disk := d1\<rparr>)
                           | Inr d2 \<Rightarrow>
                               (Inr True,
                                logger INFO (''Plugin '' @ name m @ '' installed successfully'')
                                  (load_plugin target_path (s1\<lparr>disk := d2\<rparr>))))))))"

definition install_plugin :: "path \<Rightarrow> executor \<Rightarrow> bool \<times> executor" where
  "install_plugin source s =
     (case install_plugin_body source s of
        (Inr b, s') \<Rightarrow> (b, s')
      | (Inl e, s') \<Rightarrow>
          (False, logger ERROR (''Failed to install plugin from '' @ str_path source @ '': ''
                                 @ str_exn e) s'))"

section \<open>Invoking a plugin\<close>

text \<open>
  The call \<open>method_func(**kwargs)\<close> under \<open>signal.alarm(self.timeout)\<close>: a call still
  running when the alarm goes off ends with the handler's \<open>TimeoutError\<close>; an alarm of 0
  seconds is no alarm.
\<close>

definition timed :: "nat \<Rightarrow> run \<Rightarrow> exn + string" where
  "timed limit r =
     (case r of Run secs outcome \<Rightarrow>
        if 0 < limit \<and> limit \<le> secs
        then Inl (TimeoutError (''Plugin execution timed out after '' @ str_nat limit @ ''s''))
        else outcome)"

definition execute_plugin_body ::
    "string \<Rightarrow> string \<Rightarrow> kwargs \<Rightarrow> executor \<Rightarrow> (exn + string) \<times> executor" where
  "execute_plugin_body nm method kw s =
     (case map_of (plugins s) nm of
        None \<Rightarrow> (Inl (ValueError (''Plugin not found: '' @ nm)), s)
      | Some m \<Rightarrow>
          if \<not> enabled m then (Inl (ValueError (''Plugin not enabled: '' @ nm)), s)
          else (case map_of (plugin_modules s) nm of
              None \<Rightarrow> (Inl (ValueError (''Plugin module not loaded: '' @ nm)), s)
            | Some md \<Rightarrow>
                (case md method of
                   None \<Rightarrow>
                     (Inl (ValueError (''Method '' @ method @ '' not found in plugin '' @ nm)), s)
                 | Some method_func \<Rightarrow> (timed (timeout s) (method_func kw), s))))"

text \<open>The \<open>except\<close> clause of \<open>execute_plugin\<close> logs and raises the exception again.\<close>

definition execute_plugin ::
    "string \<Rightarrow> string \<Rightarrow> kwargs \<Rightarrow> executor \<Rightarrow> (exn + string) \<times> executor" where
  "execute_plugin nm method kw s =
     (case execute_plugin_body nm method kw s of
        (Inr result, s') \<Rightarrow> (Inr result, s')
      | (Inl e, s') \<Rightarrow>
          (Inl e, logger ERROR (''Plugin execution failed '' @ nm @ ''.'' @ method @ '': ''
                                 @ str_exn e) s'))"

section \<open>Dispatch from the text of a reply\<close>

definition dangerous :: "string list" where
  "dangerous = [''rm -rf'', ''sudo'', ''passwd'', ''del /f'']"

definition execute_shell_command_body ::
    "string \<Rightarrow> executor \<Rightarrow> (exn + string) \<times> executor" where
  "execute_shell_command_body command s =
     (if list_ex (\<lambda>d. contains command d) dangerous
        then (Inr ''Error: Dangerous command blocked'', s)
      else
        (let s1 = s\<lparr>procs := procs s @ [command]\<rparr>
         in case subprocess_run s (procs s) command of
              Raised e \<Rightarrow> (Inl e, s1)
            | Completed returncode stdout stderr \<Rightarrow>
                if returncode = 0
                then (Inr (if stdout = [] then ''Command executed successfully'' else stdout), s1)
                else (Inr (''Error (code '' @ str_int returncode @ ''): '' @ stderr), s1)))"

definition execute_shell_command :: "string \<Rightarrow> executor \<Rightarrow> string \<times> executor" where
  "execute_shell_command command s =
     (case execute_shell_command_body command s of
        (Inr result, s') \<Rightarrow> (result, s')
      | (Inl (TimeoutExpired m), s') \<Rightarrow> (''Error: Command timed out'', s')
      | (Inl e, s') \<Rightarrow> (''Error: '' @ str_exn e, s'))"

definition execute_web_search :: "string \<Rightarrow> string" where
  "execute_web_search query =
     ''Web search for '' @ [CHR 0x27] @ query @ [CHR 0x27] @ '' would be executed here''"

text \<open>Lines 292 to 299 of \<open>_execute_tool_call\<close>: the dictionary \<open>args\<close>, in the order
  of its keys.\<close>

definition parse_args :: "string \<Rightarrow> kwargs" where
  "parse_args method_part =
     (if CHR ''('' \<in> set method_part \<and> CHR '')'' \<in> set method_part
      then
        (let args_str = split_sep (CHR '')'') (split_sep (CHR ''('') method_part ! 1) ! 0
         in fold (\<lambda>arg args.
                    if CHR ''='' \<in> set arg
                    then (case split_once (CHR ''='') arg of
                            (key, value) \<Rightarrow>
                              AList.update (strip key) (strip_quotes (strip value)) args)
                    else args)
              (split_sep (CHR '','') args_str) [])
      else [])"

text \<open>Lines 288 to 299: the plugin name, the method name and the arguments of a tool call
  that has a dot and an opening parenthesis.\<close>

definition parse_tool_call :: "string \<Rightarrow> string \<times> string \<times> kwargs" where
  "parse_tool_call tool_call =
     (case split_once (CHR ''.'') tool_call of
        (plugin_name, method_part) \<Rightarrow>
          (plugin_name, split_sep (CHR ''('') method_part ! 0, parse_args method_part))"

text \<open>
  The call \<open>self.execute_plugin(plugin_name, method_name, **args)\<close>: a key of \<open>args\<close>
  that is the name of a parameter the call has filled by position makes the call itself
  raise \<open>TypeError\<close>, for the first such key.
\<close>

definition call_execute_plugin ::
    "string \<Rightarrow> string \<Rightarrow> kwargs \<Rightarrow> executor \<Rightarrow> (exn + string) \<times> executor" where
  "call_execute_plugin plugin_name method_name args s =
     (case find (\<lambda>k. k \<in> set [''self'', ''name'', ''method'']) (map fst args) of
        Some k \<Rightarrow>
          (Inl (Foreign ''TypeError''
             (''PluginExecutor.execute_plugin() got multiple values for argument ''
                @ [CHR 0x27] @ k @ [CHR 0x27])), s)
      | None \<Rightarrow> execute_plugin plugin_name method_name args s)"

definition execute_tool_call_body ::
    "string \<Rightarrow> executor \<Rightarrow> (exn + string) \<times> executor" where
  "execute_tool_call_body tool_call s =
     (if CHR ''.'' \<notin> set tool_call \<or> CHR ''('' \<notin> set tool_call
        then (Inr ''Error: Invalid tool call format'', s)
      else (case parse_tool_call tool_call of
              (plugin_name, method_name, args) \<Rightarrow>
                call_execute_plugin plugin_name method_name args s))"

definition execute_tool_call :: "string \<Rightarrow> executor \<Rightarrow> string \<times> executor" where
  "execute_tool_call tool_call s =
     (case execute_tool_call_body tool_call s of
        (Inr result, s') \<Rightarrow> (result, s')
      | (Inl e, s') \<Rightarrow> (''Tool execution error: '' @ str_exn e, s'))"

text \<open>
  The body of the loop of \<open>execute_from_response\<close> for one stripped line: the entry
  it appends to \<open>results\<close>, if the line starts with one of the three prefixes.
\<close>

definition handle_line :: "string \<Rightarrow> executor \<Rightarrow> string option \<times> executor" where
  "handle_line line s =
     (if startswith line ''execute:'' then
        (let command = strip (drop 8 line)
         in case execute_shell_command command s of
              (result, s') \<Rightarrow>
                (Some (''Command: '' @ command @ [nl] @ ''Output: '' @ result), s'))
      else if startswith line ''search:'' then
        (let query = strip (drop 7 line);
             result = execute_web_search query
         in (Some (''Search: '' @ query @ [nl] @ ''Results: '' @ result), s))
      else if startswith line ''tool:'' then
        (let tool_call = strip (drop 5 line)
         in case execute_tool_call tool_call s of
              (result, s') \<Rightarrow>
                (Some (''Tool: '' @ tool_call @ [nl] @ ''Result: '' @ result), s'))
      else (None, s))"

text \<open>The loop over the lines, with the list \<open>results\<close>.\<close>

fun scan_lines :: "string list \<Rightarrow> string list \<Rightarrow> executor \<Rightarrow> string list \<times> executor" where
  "scan_lines [] results s = (results, s)"
| "scan_lines (l # rest) results s =
     (case handle_line (strip l) s of
        (Some entry, s') \<Rightarrow> scan_lines rest (results @ [entry]) s'
      | (None, s') \<Rightarrow> scan_lines rest results s')"

definition execute_from_response_body ::
    "string \<Rightarrow> executor \<Rightarrow> (exn + string option) \<times> executor" where
  "execute_from_response_body response s =
     (case scan_lines (split_sep nl response) [] s of
        (results, s') \<Rightarrow>
          (Inr (if results \<noteq> [] then Some (join [nl, nl] results) else None), s'))"

definition execute_from_response :: "string \<Rightarrow> executor \<Rightarrow> string option \<times> executor" where
  "execute_from_response response s =
     (case execute_from_response_body response s of
        (Inr result, s') \<Rightarrow> (result, s')
      | (Inl e, s') \<Rightarrow>
          (Some (''Execution error: '' @ str_exn e),
           logger ERROR (''Failed to execute from response: '' @ str_exn e) s'))"

section \<open>The model router: \<open>LLMRouter.select_model\<close>\<close>

text \<open>
  \<open>clients\<close> holds the keys of \<open>self.clients\<close> in the order they were put in, and
  \<open>model_preferences\<close> is the table the configuration gives. The log lines of the
  router and of the orchestrator are left out.
\<close>

record router =
  clients :: "string list"
  model_preferences :: "string \<rightharpoonup> string"

definition model_map :: "string \<rightharpoonup> string" where
  "model_map =
     [''claude'' \<mapsto> ''claude'', ''gpt4'' \<mapsto> ''openai'', ''openai'' \<mapsto> ''openai'',
      ''gemini'' \<mapsto> ''gemini'']"

definition is_model_available :: "router \<Rightarrow> string \<Rightarrow> bool" where
  "is_model_available r model_name =
     (case model_map model_name of
        None \<Rightarrow> False
      | Some provider \<Rightarrow> provider \<in> set (clients r))"

definition classify_task :: "string \<Rightarrow> string" where
  "classify_task prompt_text =
     (let prompt_lower = lower prompt_text
      in if list_ex (\<lambda>keyword. contains prompt_lower keyword)
              [''code'', ''program'', ''function'', ''debug'', ''api'', ''sql'', ''python'',
               ''javascript'']
         then ''coding''
         else if list_ex (\<lambda>keyword. contains prompt_lower keyword)
              [''analyze'', ''reason'', ''logic'', ''problem'', ''solve'', ''strategy'', ''plan'']
         then ''reasoning''
         else if list_ex (\<lambda>keyword. contains prompt_lower keyword)
              [''write'', ''create'', ''story'', ''poem'', ''creative'', ''brainstorm'',
               ''imagine'']
         then ''creative''
         else ''reasoning'')"

definition select_model :: "router \<Rightarrow> string \<Rightarrow> string \<Rightarrow> exn + string" where
  "select_model r requested_model prompt_text =
     (if requested_model \<noteq> ''auto'' \<and> is_model_available r requested_model
        then Inr requested_model
      else
        (let task_type = classify_task prompt_text;
             preferred_model =
               (case model_preferences r task_type of None \<Rightarrow> ''claude'' | Some m \<Rightarrow> m)
         in if is_model_available r preferred_model then Inr preferred_model
            else (case clients r of
                    fallback # others \<Rightarrow> Inr fallback
                  | [] \<Rightarrow>
                      Inl (Exception
                        ''No LLM models available - check API key configuration''))))"

section \<open>The orchestrator: \<open>TaskOrchestrator.execute_task\<close>\<close>

datatype pyval = PyStr string | PyInt nat

record task_context =
  task_id :: string
  prompt :: string
  model :: string
  use_memory :: bool
  enable_plugins :: bool
  verbose :: bool
  created_at :: nat
  metadata :: "(string \<times> pyval) list"


datatype step = MemoryLookup | ModelSelection | ModelCall | PluginDispatch | MemoryWrite

text \<open>
  \<open>active_tasks\<close> (a dictionary, as an association list) and \<open>completed_tasks\<close>
  are the attributes of \<open>self\<close>; \<open>calls\<close>
  records the calls made to the collaborators, oldest first, each with the exception it
  raised, if any.
\<close>

record orchestrator =
  active_tasks :: "(string \<times> task_context) list"
  completed_tasks :: "task_context list"
  calls :: "(step \<times> exn option) list"

definition call :: "step \<Rightarrow> exn option \<Rightarrow> orchestrator \<Rightarrow> orchestrator" where
  "call st raised s = s\<lparr>calls := calls s @ [(st, raised)]\<rparr>"








section \<open>Notions the properties are stated with\<close>

text \<open>
  The states of the registry: what \<open>__init__\<close> builds, and what a method of the
  registry or a change of the disk from outside makes of such a state.
\<close>

inductive reachable :: "executor \<Rightarrow> bool" where
  start: "init dir limit d os = Inr s \<Longrightarrow> reachable s"
| discover: "reachable s \<Longrightarrow> reachable (load_plugins s)"
| load: "reachable s \<Longrightarrow> reachable (load_plugin plugin_path s)"
| toggle: "reachable s \<Longrightarrow> reachable (snd (toggle_plugin nm en s))"
| install: "reachable s \<Longrightarrow> reachable (snd (install_plugin source s))"
| invoke: "reachable s \<Longrightarrow> reachable (snd (execute_plugin nm method kw s))"
| dispatch: "reachable s \<Longrightarrow> reachable (snd (execute_from_response response s))"
| outside: "reachable s \<Longrightarrow> reachable (s\<lparr>disk := d\<rparr>)"



text \<open>
  Model selection as the specification words it, with no model for a class the
  preference table has no entry for.
\<close>

definition select_model_spec :: "router \<Rightarrow> string \<Rightarrow> string \<Rightarrow> exn + string" where
  "select_model_spec r requested_model prompt_text =
     (let fallback =
            (case clients r of
               first # others \<Rightarrow> Inr first
             | [] \<Rightarrow> Inl (Exception ''No LLM models available - check API key configuration''))
      in if is_model_available r requested_model then Inr requested_model
         else (case model_preferences r (classify_task prompt_text) of
                 None \<Rightarrow> fallback
               | Some preferred \<Rightarrow>
                   if is_model_available r preferred then Inr preferred else fallback))"

text \<open>
  The registry is in order when every name with a loaded module is registered and every
  manifest is registered under its own name.
\<close>

definition registry_ok :: "executor \<Rightarrow> bool" where
  "registry_ok s =
     (fst ` set (plugin_modules s) \<subseteq> fst ` set (plugins s) \<and>
      (\<forall>(k, m) \<in> set (plugins s). name m = k))"

text \<open>A step from \<open>s\<close> to \<open>s'\<close> that leaves all but \<open>procs\<close> and \<open>log\<close> alone.\<close>

definition frame :: "executor \<Rightarrow> executor \<Rightarrow> bool" where
  "frame s s' =
     (plugins s' = plugins s \<and> plugin_modules s' = plugin_modules s \<and> disk s' = disk s \<and>
      plugin_dir s' = plugin_dir s \<and> timeout s' = timeout s \<and>
      subprocess_run s' = subprocess_run s)"

text \<open>
  A step from \<open>s\<close> to \<open>s'\<close> in which every command handed to \<open>subprocess.run\<close>
  is free of the dangerous substrings.
\<close>

definition starts_only_safe :: "executor \<Rightarrow> executor \<Rightarrow> bool" where
  "starts_only_safe s s' =
     (\<exists>started. procs s' = procs s @ started \<and>
        (\<forall>c \<in> set started. \<not> list_ex (\<lambda>d. contains c d) dangerous))"

text \<open>
  A tool call of the shape \<open>pluginName.methodName(key=value, ...)\<close>, built from its
  parts, and what the parts may hold for the shape to be read back: no dot in the plugin
  name, no opening parenthesis in the method name, no comma or parenthesis in a key or a
  value, and no equals sign in a key.
\<close>

definition well_shaped :: "string \<Rightarrow> string \<Rightarrow> (string \<times> string) list \<Rightarrow> bool" where
  "well_shaped p m kvs =
     (CHR ''.'' \<notin> set p \<and> CHR ''('' \<notin> set m \<and>
      (\<forall>(k, v) \<in> set kvs.
         set k \<inter> {CHR ''='', CHR '','', CHR ''('', CHR '')''} = {} \<and>
         set v \<inter> {CHR '','', CHR ''('', CHR '')''} = {}))"

definition tool_line :: "string \<Rightarrow> string \<Rightarrow> (string \<times> string) list \<Rightarrow> string" where
  "tool_line p m kvs =
     p @ ''.'' @ m @ ''('' @ join '','' (map (\<lambda>(k, v). k @ ''='' @ v) kvs) @ '')''"




section \<open>A sample installation\<close>

text \<open>
  The calculator plugin of \<open>create_sample_plugins\<close>, as far as the model goes: floats
  being outside it, \<open>add\<close> and \<open>multiply\<close> return their arguments joined by the
  sign, not the number.
\<close>

definition calculator_manifest :: manifest where
  "calculator_manifest =
     \<lparr>name = ''calculator'', version = ''1.0.0'', description = ''Basic calculator plugin'',
      entry_point = ''calculator.py'', permissions = [''compute''], dependencies = [],
      enabled = True\<rparr>"

definition calculator_module :: pymodule where
  "calculator_module =
     [''add'' \<mapsto> (\<lambda>kw. Run 0 (Inr (join ''+'' (map snd kw)))),
      ''multiply'' \<mapsto> (\<lambda>kw. Run 0 (Inr (join ''*'' (map snd kw))))]"

definition calculator_py :: content where
  "calculator_py =
     \<lparr>as_manifest = Inl (Foreign ''JSONDecodeError'' ''Expecting value: line 1 column 1 (char 0)''),
      as_module = Inr calculator_module\<rparr>"

definition sample_disk :: fs where
  "sample_disk =
     \<lparr>nodes =
        [([''plugins''], Dir),
         ([''plugins'', ''calculator''], Dir),
         ([''plugins'', ''calculator'', ''manifest.json''], File (json_dump calculator_manifest)),
         ([''plugins'', ''calculator'', ''calculator.py''], File calculator_py)],
      denied = (\<lambda>p. False)\<rparr>"

definition sample_os :: "string list \<Rightarrow> string \<Rightarrow> proc" where
  "sample_os history command = Completed 0 [] []"

text \<open>The executor \<open>__init__\<close> builds on the sample disk.\<close>

definition sample_executor :: executor where
  "sample_executor =
     \<lparr>plugin_dir = [''plugins''], timeout = 300,
      plugins = [(''calculator'', calculator_manifest)],
      plugin_modules = [(''calculator'', calculator_module)],
      disk = sample_disk, procs = [], subprocess_run = sample_os,
      log = [(DEBUG, ''Loaded plugin module: calculator''),
             (DEBUG, ''Loaded plugin: calculator''),
             (INFO, ''Plugin executor initialized with 1 plugins'')]\<rparr>"

text \<open>
  A file that is neither JSON nor Python, and an installation gone wrong: the plugin
  directory is no longer on the disk, a download holds a manifest that is no JSON, and
  the operating system starts no process.
\<close>

definition garbage :: content where
  "garbage =
     \<lparr>as_manifest = Inl (Foreign ''JSONDecodeError'' ''Expecting value: line 1 column 1 (char 0)''),
      as_module = Inl (Foreign ''SyntaxError'' ''invalid syntax'')\<rparr>"

definition broken_disk :: fs where
  "broken_disk =
     \<lparr>nodes =
        [([''downloads''], Dir),
         ([''downloads'', ''notes''], Dir),
         ([''downloads'', ''notes'', ''manifest.json''], File garbage)],
      denied = (\<lambda>p. False)\<rparr>"

definition broken_executor :: executor where
  "broken_executor =
     sample_executor
       \<lparr>disk := broken_disk,
        subprocess_run := (\<lambda>history command. Raised (Foreign ''OSError'' ''[Errno 12] Cannot allocate memory''))\<rparr>"

text \<open>The sample installation after the manifest of the calculator was write-protected.\<close>

definition locked_executor :: executor where
  "locked_executor =
     sample_executor
       \<lparr>disk := sample_disk\<lparr>denied := (\<lambda>p. p = [''plugins'', ''calculator'', ''manifest.json''])\<rparr>\<rparr>"

text \<open>
  Routers: the preference table of the default configuration with the clients of two
  API keys, the same clients with an empty table (a configuration file without
  \<open>llm.model_preferences\<close>), and the default table with no API key at all.
\<close>

definition default_preferences :: "string \<rightharpoonup> string" where
  "default_preferences =
     [''reasoning'' \<mapsto> ''claude'', ''coding'' \<mapsto> ''gpt4'', ''creative'' \<mapsto> ''gemini'']"

definition default_router :: router where
  "default_router = \<lparr>clients = [''openai'', ''claude''], model_preferences = default_preferences\<rparr>"

definition bare_router :: router where
  "bare_router = \<lparr>clients = [''openai'', ''claude''], model_preferences = Map.empty\<rparr>"

definition keyless_router :: router where
  "keyless_router = \<lparr>clients = [], model_preferences = default_preferences\<rparr>"

text \<open>
  The sample installation after the entry point of the calculator was removed from the
  disk.
\<close>

definition orphaned_executor :: executor where
  "orphaned_executor =
     sample_executor
       \<lparr>disk := sample_disk
          \<lparr>nodes :=
             [([''plugins''], Dir),
              ([''plugins'', ''calculator''], Dir),
              ([''plugins'', ''calculator'', ''manifest.json''],
               File (json_dump calculator_manifest))]\<rparr>\<rparr>"




section \<open>Auxiliary facts\<close>

lemma logger_fields [simp]:
  "plugins (logger lv msg s) = plugins s"
  "plugin_modules (logger lv msg s) = plugin_modules s"
  "disk (logger lv msg s) = disk s"
  "procs (logger lv msg s) = procs s"
  "plugin_dir (logger lv msg s) = plugin_dir s"
  "timeout (logger lv msg s) = timeout s"
  "subprocess_run (logger lv msg s) = subprocess_run s"
  "log (logger lv msg s) = log s @ [(lv, msg)]"
  by (simp_all add: logger_def)

lemmas sample_defs =
  sample_executor_def sample_disk_def calculator_manifest_def sample_os_def
  broken_executor_def broken_disk_def locked_executor_def

lemmas fs_defs =
  lookup_def exists_def is_dir_def is_file_def read_file_def write_file_def
  read_manifest_def exec_module_def str_path_def

subsection \<open>The registry stays in order\<close>

lemma update_entries:
  "(k', v') \<in> set (AList.update k v al) \<Longrightarrow> (k', v') = (k, v) \<or> (k', v') \<in> set al"
  by (induction al) (auto split: if_splits)

lemma registry_ok_logger [simp]: "registry_ok (logger lv msg s) = registry_ok s"
  by (simp add: registry_ok_def)

lemma registry_ok_disk [simp]: "registry_ok (s\<lparr>disk := d\<rparr>) = registry_ok s"
  by (simp add: registry_ok_def)

lemma load_plugin_module_ok:
  assumes "registry_ok s" and "name m \<in> fst ` set (plugins s)"
  shows "registry_ok (load_plugin_module plugin_path m s)"
  using assms
  by (auto simp add: load_plugin_module_def load_plugin_module_body_def Let_def
        registry_ok_def AList.dom_update split: sum.splits)

lemma load_plugin_module_plugins [simp]:
  "plugins (load_plugin_module plugin_path m s) = plugins s"
  by (auto simp add: load_plugin_module_def load_plugin_module_body_def Let_def
        split: sum.splits)

lemma registered_ok:
  assumes "registry_ok s"
  shows "registry_ok (s\<lparr>plugins := AList.update (name m) m (plugins s)\<rparr>)"
  using assms
  by (auto simp add: registry_ok_def AList.dom_update dest!: update_entries)

lemma load_plugin_ok:
  assumes "registry_ok s"
  shows "registry_ok (load_plugin plugin_path s)"
proof (cases "read_manifest (disk s) (plugin_path @ [''manifest.json''])")
  case (Inl e)
  with assms show ?thesis
    by (simp add: load_plugin_def load_plugin_body_def)
next
  case (Inr m)
  let ?s1 = "s\<lparr>plugins := AList.update (name m) m (plugins s)\<rparr>"
  have ok1: "registry_ok ?s1" using assms by (rule registered_ok)
  have "name m \<in> fst ` set (plugins ?s1)" by (simp add: AList.dom_update)
  with ok1 have "registry_ok (load_plugin_module plugin_path m ?s1)"
    by (rule load_plugin_module_ok)
  with ok1 Inr show ?thesis
    by (simp add: load_plugin_def load_plugin_body_def Let_def)
qed

lemma load_each_ok: "registry_ok s \<Longrightarrow> registry_ok (load_each entries s)"
  by (induction entries arbitrary: s) (simp_all add: load_plugin_ok)

lemma load_plugins_ok: "registry_ok s \<Longrightarrow> registry_ok (load_plugins s)"
  by (auto simp add: load_plugins_def load_plugins_body_def load_each_ok split: sum.splits)

lemma init_ok:
  assumes "init dir limit d os = Inr s"
  shows "registry_ok s"
proof (cases "mkdir_p d dir")
  case (Inl e)
  with assms show ?thesis by (simp add: init_def)
next
  case (Inr d1)
  define s0 where "s0 = \<lparr>plugin_dir = dir, timeout = limit, plugins = [],
                      plugin_modules = [], disk = d1, procs = [],
                      subprocess_run = os, log = []\<rparr>"
  have "registry_ok s0" by (simp add: registry_ok_def s0_def)
  then have "registry_ok (load_plugins s0)" by (rule load_plugins_ok)
  moreover have "s = logger INFO (''Plugin executor initialized with ''
                     @ str_nat (length (plugins (load_plugins s0))) @ '' plugins'')
                   (load_plugins s0)"
    using assms Inr unfolding init_def s0_def Let_def by simp
  ultimately show ?thesis by simp
qed

lemma toggle_ok:
  assumes "registry_ok s"
  shows "registry_ok (snd (toggle_plugin nm en s))"
proof (cases "map_of (plugins s) nm")
  case None
  with assms show ?thesis by (simp add: toggle_plugin_def toggle_plugin_body_def)
next
  case (Some m0)
  then have mem: "(nm, m0) \<in> set (plugins s)" by (rule map_of_SomeD)
  with assms have nm: "name m0 = nm" by (auto simp add: registry_ok_def)
  let ?m = "m0\<lparr>enabled := en\<rparr>"
  let ?s1 = "s\<lparr>plugins := AList.update nm ?m (plugins s)\<rparr>"
  have "registry_ok (s\<lparr>plugins := AList.update (name ?m) ?m (plugins s)\<rparr>)"
    using assms by (rule registered_ok)
  with nm have ok1: "registry_ok ?s1" by simp
  have in1: "name ?m \<in> fst ` set (plugins ?s1)" using nm by (simp add: AList.dom_update)
  show ?thesis
  proof (cases "write_file (disk s) (plugin_dir s @ [nm, ''manifest.json'']) (json_dump ?m)")
    case (Inl e)
    with Some ok1 show ?thesis by (simp add: toggle_plugin_def toggle_plugin_body_def)
  next
    case (Inr d)
    let ?s2 = "?s1\<lparr>disk := d\<rparr>"
    have ok2: "registry_ok ?s2" using ok1 by simp
    have in2: "name ?m \<in> fst ` set (plugins ?s2)" using in1 by simp
    have l: "registry_ok (load_plugin_module (plugin_dir s @ [nm]) ?m ?s2)"
      using ok2 in2 by (rule load_plugin_module_ok)
    have r: "registry_ok (?s2\<lparr>plugin_modules := AList.delete nm (plugin_modules ?s2)\<rparr>)"
      using ok2 AList.dom_delete_subset [of nm "plugin_modules s"]
      by (auto simp add: registry_ok_def)
    from Some Inr ok2 l r show ?thesis
      by (cases en) (simp_all add: toggle_plugin_def toggle_plugin_body_def Let_def)
  qed
qed

lemma install_body_ok:
  assumes ok: "registry_ok s"
  shows "registry_ok (snd (install_plugin_body source s))"
proof (cases "exists (disk s) source \<and> exists (disk s) (source @ [''manifest.json''])")
  case False
  with ok show ?thesis by (auto simp add: install_plugin_body_def Let_def)
next
  case True
  note ex = True
  show ?thesis
  proof (cases "read_manifest (disk s) (source @ [''manifest.json''])")
    case (Inl e)
    with ok ex show ?thesis by (simp add: install_plugin_body_def Let_def)
  next
    case (Inr m)
    define s1 where "s1 = (if name m \<in> set (map fst (plugins s))
                            then logger WARNING (''Plugin '' @ name m
                                   @ '' already exists, updating...'') s
                            else s)"
    have ok1: "registry_ok s1" using ok by (simp add: s1_def)
    define target where "target = plugin_dir s @ [name m]"
    define removed where "removed = (if exists (disk s1) target then rmtree (disk s1) target
                            else Inr (disk s1))"
    have body: "install_plugin_body source s =
       (case removed of
          Inl e \<Rightarrow> (Inl e, s1)
        | Inr d1 \<Rightarrow>
            (case copytree d1 source target of
               Inl e \<Rightarrow> (Inl e, s1\<lparr>disk := d1\<rparr>)
             | Inr d2 \<Rightarrow>
                 (Inr True,
                  logger INFO (''Plugin '' @ name m @ '' installed successfully'')
                    (load_plugin target (s1\<lparr>disk := d2\<rparr>)))))"
      unfolding install_plugin_body_def Let_def s1_def target_def removed_def
      using ex Inr by simp
    show ?thesis
    proof (cases removed)
      case (Inl e)
      with ok1 body show ?thesis by simp
    next
      case rm: (Inr d1)
      show ?thesis
      proof (cases "copytree d1 source target")
        case (Inl e)
        with ok1 body rm show ?thesis by simp
      next
        case (Inr d2)
        have "registry_ok (load_plugin target (s1\<lparr>disk := d2\<rparr>))"
          using ok1 by (simp add: load_plugin_ok)
        with body rm Inr show ?thesis by simp
      qed
    qed
  qed
qed

lemma install_ok:
  assumes "registry_ok s"
  shows "registry_ok (snd (install_plugin source s))"
proof (cases "install_plugin_body source s")
  case (Pair r s')
  with install_body_ok [OF assms, of source] have "registry_ok s'" by simp
  with Pair show ?thesis by (cases r) (simp_all add: install_plugin_def)
qed

subsection \<open>Invocation and dispatch change only the log and the processes\<close>

lemma frame_refl [simp]: "frame s s"
  by (simp add: frame_def)

lemma frame_trans: "frame s s1 \<Longrightarrow> frame s1 s2 \<Longrightarrow> frame s s2"
  by (simp add: frame_def)

lemma frame_logger [simp]: "frame s (logger lv msg s') = frame s s'"
  by (simp add: frame_def)

lemma frame_procs [simp]: "frame s (s'\<lparr>procs := ps\<rparr>) = frame s s'"
  by (simp add: frame_def)

lemma frame_ok: "frame s s' \<Longrightarrow> registry_ok s \<Longrightarrow> registry_ok s'"
  by (simp add: frame_def registry_ok_def)

lemma execute_plugin_body_frame: "frame s (snd (execute_plugin_body nm method kw s))"
  by (simp add: execute_plugin_body_def split: option.splits)

lemma execute_plugin_frame: "frame s (snd (execute_plugin nm method kw s))"
proof (cases "execute_plugin_body nm method kw s")
  case (Pair r s')
  with execute_plugin_body_frame [of s nm "method" kw] have "frame s s'" by simp
  with Pair show ?thesis by (cases r) (simp_all add: execute_plugin_def)
qed

lemma execute_shell_command_frame: "frame s (snd (execute_shell_command command s))"
proof (cases "list_ex (\<lambda>d. contains command d) dangerous")
  case True
  then show ?thesis
    by (simp add: execute_shell_command_def execute_shell_command_body_def)
next
  case False
  then show ?thesis
    by (cases "subprocess_run s (procs s) command")
       (simp_all add: execute_shell_command_def execute_shell_command_body_def Let_def
          split: exn.splits)
qed

lemma execute_tool_call_frame: "frame s (snd (execute_tool_call tool_call s))"
proof (cases "execute_tool_call_body tool_call s")
  case (Pair r s')
  have "frame s (snd (execute_tool_call_body tool_call s))"
    using execute_plugin_frame
    by (simp add: execute_tool_call_body_def call_execute_plugin_def
          split: prod.splits option.splits)
  with Pair have "frame s s'" by simp
  with Pair show ?thesis by (cases r) (simp_all add: execute_tool_call_def)
qed

lemma handle_line_frame: "frame s (snd (handle_line line s))"
  using execute_shell_command_frame [of s "strip (drop 8 line)"]
        execute_tool_call_frame [of s "strip (drop 5 line)"]
  by (auto simp add: handle_line_def Let_def split: prod.splits)

lemma scan_lines_frame: "frame s (snd (scan_lines ls results s))"
proof (induction ls arbitrary: results s)
  case Nil
  show ?case by simp
next
  case (Cons l rest)
  obtain entry s1 where h: "handle_line (strip l) s = (entry, s1)" by (cases "handle_line (strip l) s")
  with handle_line_frame [of s "strip l"] have f1: "frame s s1" by simp
  show ?case
  proof (cases entry)
    case None
    with h f1 Cons.IH [of s1 results] show ?thesis by (auto intro: frame_trans)
  next
    case (Some x)
    with h f1 Cons.IH [of s1 "results @ [x]"] show ?thesis by (auto intro: frame_trans)
  qed
qed

lemma execute_from_response_frame: "frame s (snd (execute_from_response response s))"
  using scan_lines_frame [of s "split_sep nl response" "[]"]
  by (auto simp add: execute_from_response_def execute_from_response_body_def split: prod.splits)

lemma reachable_ok: "reachable s \<Longrightarrow> registry_ok s"
proof (induction rule: reachable.induct)
  case (start dir limit d os s)
  then show ?case by (rule init_ok)
next
  case (discover s)
  then show ?case by (simp add: load_plugins_ok)
next
  case (load s plugin_path)
  then show ?case by (simp add: load_plugin_ok)
next
  case (toggle s nm en)
  then show ?case by (simp add: toggle_ok)
next
  case (install s source)
  then show ?case by (simp add: install_ok)
next
  case (invoke s nm meth kw)
  then show ?case using execute_plugin_frame frame_ok by blast
next
  case (dispatch s response)
  then show ?case using execute_from_response_frame frame_ok by blast
next
  case (outside s d)
  then show ?case by simp
qed

subsection \<open>The sample installation is what \<open>__init__\<close> builds\<close>

lemma str_nat_1: "str_nat (Suc 0) = ''1''"
  by code_simp

lemma init_sample: "init [''plugins''] 300 sample_disk sample_os = Inr sample_executor"
  by (simp add: init_def mkdir_p_def load_plugins_def load_plugins_body_def iterdir_def
        load_plugin_def load_plugin_body_def load_plugin_module_def load_plugin_module_body_def
        sample_defs fs_defs json_dump_def calculator_py_def logger_def Let_def str_nat_1)

subsection \<open>Only safe commands are started\<close>

lemma starts_only_safe_refl [simp]: "starts_only_safe s s"
  by (simp add: starts_only_safe_def)

lemma starts_only_safe_trans:
  "starts_only_safe s s1 \<Longrightarrow> starts_only_safe s1 s2 \<Longrightarrow> starts_only_safe s s2"
  by (auto simp add: starts_only_safe_def)

lemma starts_only_safe_same: "procs s' = procs s \<Longrightarrow> starts_only_safe s s'"
  by (simp add: starts_only_safe_def)

lemma blocked:
  "list_ex (\<lambda>d. contains command d) dangerous \<Longrightarrow>
   execute_shell_command command s = (''Error: Dangerous command blocked'', s)"
  by (simp add: execute_shell_command_def execute_shell_command_body_def)

lemma execute_shell_command_safe:
  "starts_only_safe s (snd (execute_shell_command command s))"
proof (cases "list_ex (\<lambda>d. contains command d) dangerous")
  case True
  then show ?thesis by (simp add: blocked)
next
  case False
  then have "procs (snd (execute_shell_command command s)) = procs s @ [command]"
    by (cases "subprocess_run s (procs s) command")
       (simp_all add: execute_shell_command_def execute_shell_command_body_def Let_def
          split: exn.splits)
  with False show ?thesis by (simp add: starts_only_safe_def)
qed

lemma execute_plugin_procs [simp]: "procs (snd (execute_plugin nm method kw s)) = procs s"
proof -
  have "procs (snd (execute_plugin_body nm method kw s)) = procs s"
    by (simp add: execute_plugin_body_def split: option.splits)
  then show ?thesis
    by (cases "execute_plugin_body nm method kw s")
       (auto simp add: execute_plugin_def split: sum.splits)
qed

lemma execute_tool_call_procs [simp]: "procs (snd (execute_tool_call tool_call s)) = procs s"
proof -
  have "procs (snd (execute_tool_call_body tool_call s)) = procs s"
    by (simp add: execute_tool_call_body_def call_execute_plugin_def
          split: prod.splits option.splits)
  then show ?thesis
    by (cases "execute_tool_call_body tool_call s")
       (auto simp add: execute_tool_call_def split: sum.splits)
qed

lemma handle_line_safe: "starts_only_safe s (snd (handle_line line s))"
  using execute_shell_command_safe [of s "strip (drop 8 line)"]
        starts_only_safe_same [OF execute_tool_call_procs [of "strip (drop 5 line)" s]]
  by (auto simp add: handle_line_def Let_def split: prod.splits)

lemma scan_lines_safe: "starts_only_safe s (snd (scan_lines ls results s))"
proof (induction ls arbitrary: results s)
  case Nil
  show ?case by simp
next
  case (Cons l rest)
  obtain entry s1 where h: "handle_line (strip l) s = (entry, s1)"
    by (cases "handle_line (strip l) s")
  with handle_line_safe [of s "strip l"] have f1: "starts_only_safe s s1" by simp
  show ?case
  proof (cases entry)
    case None
    with h f1 Cons.IH [of s1 results] show ?thesis
      by (auto intro: starts_only_safe_trans)
  next
    case (Some x)
    with h f1 Cons.IH [of s1 "results @ [x]"] show ?thesis
      by (auto intro: starts_only_safe_trans)
  qed
qed

lemma execute_from_response_safe:
  "starts_only_safe s (snd (execute_from_response response s))"
  using scan_lines_safe [of s "split_sep nl response" "[]"]
  by (auto simp add: execute_from_response_def execute_from_response_body_def
        starts_only_safe_def split: prod.splits)

subsection \<open>The loop over the lines\<close>





subsection \<open>Splitting and joining\<close>

lemma split_sep_not_Nil [simp]: "split_sep c s \<noteq> []"
  by (induction s) (auto split: list.splits)

lemma split_sep_free: "c \<notin> set xs \<Longrightarrow> split_sep c xs = [xs]"
  by (induction xs) auto

lemma split_sep_at: "c \<notin> set xs \<Longrightarrow> split_sep c (xs @ c # ys) = xs # split_sep c ys"
  by (induction xs) auto

lemma split_once_at: "c \<notin> set xs \<Longrightarrow> split_once c (xs @ c # ys) = (xs, ys)"
  by (induction xs) (auto simp add: split_once_def)

lemma set_join_subset: "set (join sep items) \<subseteq> set sep \<union> \<Union> (set ` set items)"
  by (induction sep items rule: join.induct) auto

lemma split_sep_join:
  "items \<noteq> [] \<Longrightarrow> \<forall>x \<in> set items. c \<notin> set x \<Longrightarrow> split_sep c (join [c] items) = items"
proof (induction "[c]" items rule: join.induct)
  case 1
  then show ?case by simp
next
  case (2 x)
  then show ?case by (simp add: split_sep_free)
next
  case (3 x y ys)
  then show ?case by (simp add: split_sep_at)
qed

subsection \<open>Parsing a tool call\<close>

lemma parse_args_shape:
  assumes "CHR ''('' \<notin> set m"
    and kv: "\<forall>(k, v) \<in> set kvs.
         set k \<inter> {CHR ''='', CHR '','', CHR ''('', CHR '')''} = {} \<and>
         set v \<inter> {CHR '','', CHR ''('', CHR '')''} = {}"
  shows "parse_args (m @ ''('' @ join '','' (map (\<lambda>(k, v). k @ ''='' @ v) kvs) @ '')'')
     = fold (\<lambda>(k, v) args. AList.update (strip k) (strip_quotes (strip v)) args) kvs []"
    and "split_sep (CHR ''('') (m @ ''('' @ join '','' (map (\<lambda>(k, v). k @ ''='' @ v) kvs) @ '')'') ! 0 = m"
proof -
  let ?items = "map (\<lambda>(k, v). k @ ''='' @ v) kvs"
  let ?A = "join '','' ?items"
  let ?step = "\<lambda>arg args.
                    if CHR ''='' \<in> set arg
                    then (case split_once (CHR ''='') arg of
                            (key, value) \<Rightarrow>
                              AList.update (strip key) (strip_quotes (strip value)) args)
                    else args"
  have item: "\<forall>x \<in> set ?items. CHR '','' \<notin> set x \<and> CHR ''('' \<notin> set x \<and> CHR '')'' \<notin> set x"
    using kv by fastforce
  have A: "CHR ''('' \<notin> set ?A" "CHR '')'' \<notin> set ?A"
    using set_join_subset [of "'',''" ?items] item by auto
  have s1: "split_sep (CHR ''('') (m @ ''('' @ ?A @ '')'') = [m, ?A @ '')'']"
    using assms(1) A by (simp add: split_sep_at split_sep_free)
  have s2: "split_sep (CHR '')'') (?A @ '')'') = [?A, []]"
    using A by (simp add: split_sep_at)
  have s3: "fold ?step (split_sep (CHR '','') ?A) []
     = fold (\<lambda>(k, v) args. AList.update (strip k) (strip_quotes (strip v)) args) kvs []"
  proof (cases "kvs = []")
    case True
    then show ?thesis by simp
  next
    case False
    then have "split_sep (CHR '','') ?A = ?items"
      using item split_sep_join [of ?items "CHR '',''"] by simp
    moreover have "fold ?step ?items []
       = fold (\<lambda>(k, v) args. AList.update (strip k) (strip_quotes (strip v)) args) kvs []"
      unfolding fold_map
    proof (rule fold_cong [OF refl refl])
      fix x assume "x \<in> set kvs"
      then obtain k v where x: "x = (k, v)" and "CHR ''='' \<notin> set k"
        using kv by (cases x) auto
      then show "(?step \<circ> (\<lambda>(k, v). k @ ''='' @ v)) x
         = (\<lambda>(k, v). AList.update (strip k) (strip_quotes (strip v))) x"
        by (simp add: split_once_at fun_eq_iff)
    qed
    ultimately show ?thesis by simp
  qed
  show "parse_args (m @ ''('' @ ?A @ '')'') 
     = fold (\<lambda>(k, v) args. AList.update (strip k) (strip_quotes (strip v)) args) kvs []"
    unfolding parse_args_def Let_def s1 using s2 s3 by simp
  show "split_sep (CHR ''('') (m @ ''('' @ ?A @ '')'') ! 0 = m"
    unfolding s1 by simp
qed

lemma parse_tool_call_shape:
  assumes "well_shaped p m kvs"
  shows "parse_tool_call (tool_line p m kvs)
     = (p, m, fold (\<lambda>(k, v) args. AList.update (strip k) (strip_quotes (strip v)) args) kvs [])"
proof -
  from assms have p: "CHR ''.'' \<notin> set p" and m: "CHR ''('' \<notin> set m"
    and kv: "\<forall>(k, v) \<in> set kvs.
         set k \<inter> {CHR ''='', CHR '','', CHR ''('', CHR '')''} = {} \<and>
         set v \<inter> {CHR '','', CHR ''('', CHR '')''} = {}"
    by (simp_all add: well_shaped_def)
  have "split_once (CHR ''.'') (tool_line p m kvs)
     = (p, m @ ''('' @ join '','' (map (\<lambda>(k, v). k @ ''='' @ v) kvs) @ '')'')"
    using split_once_at [OF p] by (simp add: tool_line_def)
  then show ?thesis
    using parse_args_shape [OF m kv] by (simp add: parse_tool_call_def)
qed

lemma tool_line_has: "CHR ''.'' \<in> set (tool_line p m kvs)" "CHR ''('' \<in> set (tool_line p m kvs)"
  by (simp_all add: tool_line_def)

lemma calculator_line:
  "split_sep nl ''tool:calculator.add(a=2,b=3)'' = [''tool:calculator.add(a=2,b=3)'']"
  "strip ''tool:calculator.add(a=2,b=3)'' = ''tool:calculator.add(a=2,b=3)''"
  "startswith ''tool:calculator.add(a=2,b=3)'' ''execute:'' = False"
  "startswith ''tool:calculator.add(a=2,b=3)'' ''search:'' = False"
  "startswith ''tool:calculator.add(a=2,b=3)'' ''tool:'' = True"
  "strip (drop 5 ''tool:calculator.add(a=2,b=3)'') = ''calculator.add(a=2,b=3)''"
  "strip ''calculator.add(a=2,b=3)'' = ''calculator.add(a=2,b=3)''"
  "parse_tool_call ''calculator.add(a=2,b=3)''
     = (''calculator'', ''add'', [(''a'', ''2''), (''b'', ''3'')])"
  by code_simp+

lemma calculator_call:
  assumes "map_of (plugins s) ''calculator'' = Some m" and "enabled m"
    and "map_of (plugin_modules s) ''calculator'' = Some md" and "md ''add'' = Some f"
  shows "fst (execute_tool_call ''calculator.add(a=2,b=3)'' s)
     = (case timed (timeout s) (f [(''a'', ''2''), (''b'', ''3'')]) of
          Inl e \<Rightarrow> ''Tool execution error: '' @ str_exn e
        | Inr r \<Rightarrow> r)"
proof -
  have "execute_tool_call_body ''calculator.add(a=2,b=3)'' s
     = execute_plugin ''calculator'' ''add'' [(''a'', ''2''), (''b'', ''3'')] s"
    by (simp add: execute_tool_call_body_def calculator_line call_execute_plugin_def)
  moreover have "execute_plugin_body ''calculator'' ''add'' [(''a'', ''2''), (''b'', ''3'')] s
     = (timed (timeout s) (f [(''a'', ''2''), (''b'', ''3'')]), s)"
    using assms by (simp add: execute_plugin_body_def)
  ultimately show ?thesis
    by (cases "timed (timeout s) (f [(''a'', ''2''), (''b'', ''3'')])")
       (simp_all add: execute_tool_call_def execute_plugin_def)
qed

subsection \<open>Invocation and selection\<close>


lemma not_available_Nil: "clients r = [] \<Longrightarrow> \<not> is_model_available r x"
  by (simp add: is_model_available_def split: option.splits)

subsection \<open>Toggling\<close>

lemma read_after_write:
  "write_file d0 p f = Inr d \<Longrightarrow> read_file d p = Inr f"
  by (auto simp add: write_file_def read_file_def lookup_def AList.update_conv'
        split: if_splits)

lemma read_manifest_after_write:
  "write_file d0 p (json_dump m) = Inr d \<Longrightarrow> read_manifest d p = Inr m"
  by (simp add: read_manifest_def read_after_write json_dump_def)

lemma load_plugin_module_disk [simp]:
  "disk (load_plugin_module plugin_path m s) = disk s"
  by (auto simp add: load_plugin_module_def load_plugin_module_body_def Let_def
        split: sum.splits)

lemma load_plugin_module_dir [simp]:
  "plugin_dir (load_plugin_module plugin_path m s) = plugin_dir s"
  by (auto simp add: load_plugin_module_def load_plugin_module_body_def Let_def
        split: sum.splits)

lemma exec_module_missing:
  "\<not> exists d p \<Longrightarrow> \<exists>e. exec_module d p = Inl e"
  by (simp add: exec_module_def read_file_def exists_def split: option.splits)

lemma load_plugin_module_keys:
  "fst ` set (plugin_modules (load_plugin_module plugin_path m s))
     = (if \<exists>md. exec_module (disk s) (plugin_path @ [entry_point m]) = Inr md
        then insert (name m) (fst ` set (plugin_modules s))
        else fst ` set (plugin_modules s))"
proof (cases "exists (disk s) (plugin_path @ [entry_point m])")
  case False
  with exec_module_missing [OF False] show ?thesis
    by (auto simp add: load_plugin_module_def load_plugin_module_body_def Let_def)
next
  case True
  then show ?thesis
    by (cases "exec_module (disk s) (plugin_path @ [entry_point m])")
       (simp_all add: load_plugin_module_def load_plugin_module_body_def Let_def
          AList.dom_update)
qed

lemma toggle_written:
  assumes "map_of (plugins s) nm = Some m0"
    and "write_file (disk s) (plugin_dir s @ [nm, ''manifest.json''])
           (json_dump (m0\<lparr>enabled := en\<rparr>)) = Inr d"
  shows "toggle_plugin nm en s =
     (True,
      logger INFO (''Plugin '' @ nm @ '' '' @ (if en then ''enabled'' else ''disabled''))
        (let s2 = s\<lparr>plugins := AList.update nm (m0\<lparr>enabled := en\<rparr>) (plugins s), disk := d\<rparr>
         in if en \<and> nm \<notin> set (map fst (plugin_modules s2))
              then load_plugin_module (plugin_dir s @ [nm]) (m0\<lparr>enabled := en\<rparr>) s2
            else if \<not> en \<and> nm \<in> set (map fst (plugin_modules s2))
              then s2\<lparr>plugin_modules := AList.delete nm (plugin_modules s2)\<rparr>
            else s2))"
  using assms by (simp add: toggle_plugin_def toggle_plugin_body_def Let_def)

lemma toggle_not_written:
  assumes "map_of (plugins s) nm = Some m0"
    and "write_file (disk s) (plugin_dir s @ [nm, ''manifest.json''])
           (json_dump (m0\<lparr>enabled := en\<rparr>)) = Inl e"
  shows "fst (toggle_plugin nm en s) = False"
  using assms by (simp add: toggle_plugin_def toggle_plugin_body_def Let_def)

lemma toggle_unknown: "map_of (plugins s) nm = None \<Longrightarrow> fst (toggle_plugin nm en s) = False"
  by (simp add: toggle_plugin_def toggle_plugin_body_def)

lemma toggle_off:
  assumes reg: "map_of (plugins s) nm = Some m"
    and loaded: "nm \<in> fst ` set (plugin_modules s)"
    and t: "toggle_plugin nm False s = (True, s1)"
  shows "read_manifest (disk s1) (plugin_dir s @ [nm, ''manifest.json''])
           = Inr (m\<lparr>enabled := False\<rparr>)"
    and "map_of (plugins s1) nm = Some (m\<lparr>enabled := False\<rparr>)"
    and "nm \<notin> fst ` set (plugin_modules s1)"
    and "plugin_dir s1 = plugin_dir s"
proof -
  let ?P = "plugin_dir s @ [nm, ''manifest.json'']"
  obtain d where w: "write_file (disk s) ?P (json_dump (m\<lparr>enabled := False\<rparr>)) = Inr d"
    using toggle_not_written [OF reg, of False] t
    by (cases "write_file (disk s) ?P (json_dump (m\<lparr>enabled := False\<rparr>))") auto
  from toggle_written [OF reg w] t loaded
  have s1: "s1 = logger INFO (''Plugin '' @ nm @ '' disabled'')
      (s\<lparr>plugins := AList.update nm (m\<lparr>enabled := False\<rparr>) (plugins s), disk := d,
         plugin_modules := AList.delete nm (plugin_modules s)\<rparr>)"
    by (simp add: Let_def)
  show "read_manifest (disk s1) ?P = Inr (m\<lparr>enabled := False\<rparr>)"
    unfolding s1 using read_manifest_after_write [OF w] by simp
  show "map_of (plugins s1) nm = Some (m\<lparr>enabled := False\<rparr>)"
    unfolding s1 by (simp add: AList.update_conv')
  show "nm \<notin> fst ` set (plugin_modules s1)"
    unfolding s1 by (simp add: AList.delete_notin_dom)
  show "plugin_dir s1 = plugin_dir s"
    unfolding s1 by simp
qed

lemma toggle_on:
  assumes reg: "map_of (plugins s) nm = Some m" and nm: "name m = nm"
    and absent: "nm \<notin> fst ` set (plugin_modules s)"
    and t: "toggle_plugin nm True s = (True, s2)"
  shows "read_manifest (disk s2) (plugin_dir s @ [nm, ''manifest.json''])
           = Inr (m\<lparr>enabled := True\<rparr>)"
    and "map_of (plugins s2) nm = Some (m\<lparr>enabled := True\<rparr>)"
    and "(nm \<in> fst ` set (plugin_modules s2))
           = (\<exists>md. exec_module (disk s2) (plugin_dir s @ [nm, entry_point m]) = Inr md)"
proof -
  let ?P = "plugin_dir s @ [nm, ''manifest.json'']"
  let ?m = "m\<lparr>enabled := True\<rparr>"
  obtain d where w: "write_file (disk s) ?P (json_dump ?m) = Inr d"
    using toggle_not_written [OF reg, of True] t
    by (cases "write_file (disk s) ?P (json_dump ?m)") auto
  let ?s = "s\<lparr>plugins := AList.update nm ?m (plugins s), disk := d\<rparr>"
  from toggle_written [OF reg w] t absent
  have s2: "s2 = logger INFO (''Plugin '' @ nm @ '' enabled'')
      (load_plugin_module (plugin_dir s @ [nm]) ?m ?s)"
    by (simp add: Let_def)
  show "read_manifest (disk s2) ?P = Inr ?m"
    unfolding s2 using read_manifest_after_write [OF w] by simp
  show "map_of (plugins s2) nm = Some ?m"
    unfolding s2 by (simp add: AList.update_conv')
  show "(nm \<in> fst ` set (plugin_modules s2))
           = (\<exists>md. exec_module (disk s2) (plugin_dir s @ [nm, entry_point m]) = Inr md)"
    unfolding s2 using absent nm by (simp add: load_plugin_module_keys)
qed

lemmas toggle_eval =
  toggle_plugin_def toggle_plugin_body_def load_plugin_module_def load_plugin_module_body_def
  json_dump_def calculator_py_def logger_def Let_def

lemma toggle_sample_off:
  "toggle_plugin ''calculator'' False sample_executor =
     (True,
      sample_executor
        \<lparr>plugins := [(''calculator'', calculator_manifest\<lparr>enabled := False\<rparr>)],
         plugin_modules := [],
         disk := sample_disk
           \<lparr>nodes :=
              [([''plugins''], Dir),
               ([''plugins'', ''calculator''], Dir),
               ([''plugins'', ''calculator'', ''manifest.json''],
                File (json_dump (calculator_manifest\<lparr>enabled := False\<rparr>))),
               ([''plugins'', ''calculator'', ''calculator.py''], File calculator_py)]\<rparr>,
         log := log sample_executor @ [(INFO, ''Plugin calculator disabled'')]\<rparr>)"
  by (simp add: toggle_eval sample_defs fs_defs)

subsection \<open>The phases of a task\<close>

lemma call_fields [simp]:
  "active_tasks (call st raised s) = active_tasks s"
  "completed_tasks (call st raised s) = completed_tasks s"
  "calls (call st raised s) = calls s @ [(st, raised)]"
  by (simp_all add: call_def)











subsection \<open>The state a body raises in\<close>


section \<open>Toggle and persistence\<close>

text \<open>
  Claim C10. Toggle is not atomic with respect to persistence. For a registered plugin,
  if writing the manifest file raises, \<open>toggle_plugin\<close> returns false, the in-memory
  flag already has the requested value, and the loaded modules (and the disk) are as
  before; so flag, file and modules can disagree afterwards, as the witness shows. With
  an unknown name, \<open>toggle_plugin\<close> returns false and leaves registry, modules and
  disk unchanged.
\<close>

theorem toggle_not_atomic:
  "(map_of (plugins s) nm = Some m \<and>
      write_file (disk s) (plugin_dir s @ [nm, ''manifest.json''])
        (json_dump (m\<lparr>enabled := en\<rparr>)) = Inl e
    \<longrightarrow> (case toggle_plugin nm en s of (r, s') \<Rightarrow>
          r = False \<and> plugins s' = AList.update nm (m\<lparr>enabled := en\<rparr>) (plugins s) \<and>
          plugin_modules s' = plugin_modules s \<and> disk s' = disk s))
   \<and> (map_of (plugins s) nm = None
    \<longrightarrow> (case toggle_plugin nm en s of (r, s') \<Rightarrow>
          r = False \<and> plugins s' = plugins s \<and> plugin_modules s' = plugin_modules s \<and>
          disk s' = disk s))"
  by (simp add: toggle_plugin_def toggle_plugin_body_def)

theorem toggle_not_atomic_witness:
  "map_of (plugins locked_executor) ''calculator'' = Some calculator_manifest \<and>
   write_file (disk locked_executor) (plugin_dir locked_executor @ [''calculator'', ''manifest.json''])
     (json_dump (calculator_manifest\<lparr>enabled := False\<rparr>))
     = Inl (Foreign ''PermissionError'' ''plugins/calculator/manifest.json'') \<and>
   map_of (plugins locked_executor) ''weather'' = None \<and>
   (case toggle_plugin ''calculator'' False locked_executor of (r, s') \<Rightarrow>
      r = False \<and>
      map_of (plugins s') ''calculator'' = Some (calculator_manifest\<lparr>enabled := False\<rparr>) \<and>
      lookup (disk s') [''plugins'', ''calculator'', ''manifest.json'']
        = Some (File (json_dump calculator_manifest)) \<and>
      map_of (plugin_modules s') ''calculator'' = Some calculator_module) \<and>
   (case toggle_plugin ''weather'' True locked_executor of (r, s') \<Rightarrow>
      r = False \<and> plugins s' = plugins locked_executor \<and>
      plugin_modules s' = plugin_modules locked_executor \<and> disk s' = disk locked_executor)"
proof -
  have h1: "map_of (plugins locked_executor) ''calculator'' = Some calculator_manifest"
    by (simp add: sample_defs)
  have h2: "write_file (disk locked_executor)
       (plugin_dir locked_executor @ [''calculator'', ''manifest.json''])
       (json_dump (calculator_manifest\<lparr>enabled := False\<rparr>))
     = Inl (Foreign ''PermissionError'' ''plugins/calculator/manifest.json'')"
    by (simp add: sample_defs fs_defs)
  have h3: "map_of (plugins locked_executor) ''weather'' = None"
    by (simp add: sample_defs)
  from toggle_not_atomic [of locked_executor "''calculator''" calculator_manifest False
      "Foreign ''PermissionError'' ''plugins/calculator/manifest.json''"] h1 h2
  have c1: "case toggle_plugin ''calculator'' False locked_executor of (r, s') \<Rightarrow>
      r = False \<and>
      plugins s' = AList.update ''calculator'' (calculator_manifest\<lparr>enabled := False\<rparr>)
                     (plugins locked_executor) \<and>
      plugin_modules s' = plugin_modules locked_executor \<and> disk s' = disk locked_executor"
    by simp
  from toggle_not_atomic [of locked_executor "''weather''" _ True] h3
  have c2: "case toggle_plugin ''weather'' True locked_executor of (r, s') \<Rightarrow>
      r = False \<and> plugins s' = plugins locked_executor \<and>
      plugin_modules s' = plugin_modules locked_executor \<and> disk s' = disk locked_executor"
    by simp
  from c1 have c1': "case toggle_plugin ''calculator'' False locked_executor of (r, s') \<Rightarrow>
      r = False \<and>
      map_of (plugins s') ''calculator'' = Some (calculator_manifest\<lparr>enabled := False\<rparr>) \<and>
      lookup (disk s') [''plugins'', ''calculator'', ''manifest.json'']
        = Some (File (json_dump calculator_manifest)) \<and>
      map_of (plugin_modules s') ''calculator'' = Some calculator_module"
    by (auto simp add: sample_defs lookup_def split: prod.splits)
  from h1 h2 h3 c1' c2 show ?thesis by simp
qed

section \<open>The registry invariant\<close>

text \<open>
  Claim C9. In every state the registry can reach (by \<open>__init__\<close> with its first
  discovery, by discovery again, load, toggle, install, invoke and dispatch, whatever
  happens to the disk in between), each name with a loaded module is a registered name:
  no operation loads a module for an unregistered name.
\<close>

theorem loaded_modules_are_registered:
  "reachable s \<Longrightarrow> fst ` set (plugin_modules s) \<subseteq> fst ` set (plugins s)"
  using reachable_ok [of s] by (simp add: registry_ok_def)

theorem loaded_modules_are_registered_witness:
  "reachable (snd (toggle_plugin ''calculator'' False sample_executor)) \<and>
   fst ` set (plugin_modules (snd (toggle_plugin ''calculator'' False sample_executor)))
     \<subseteq> fst ` set (plugins (snd (toggle_plugin ''calculator'' False sample_executor)))"
proof -
  have r: "reachable (snd (toggle_plugin ''calculator'' False sample_executor))"
    by (rule reachable.toggle, rule reachable.start, rule init_sample)
  from r loaded_modules_are_registered [OF r] show ?thesis by simp
qed

section \<open>Shell commands\<close>

text \<open>
  Claim C8. A shell command that contains a substring of the deny-list (in particular
  \<open>rm -rf\<close>) is not executed: the handler returns the text
  \<open>Error: Dangerous command blocked\<close> and leaves the state as it was, so nothing was
  handed to \<open>subprocess.run\<close>; on the \<open>execute:\<close> path the entry of the line reports
  the block; and whatever the reply, every command dispatch-from-text does start is free
  of the deny-listed substrings.
\<close>

theorem dangerous_commands_blocked:
  "(list_ex (\<lambda>d. contains command d) dangerous \<longrightarrow>
      execute_shell_command command s = (''Error: Dangerous command blocked'', s))
   \<and> (contains command ''rm -rf'' \<longrightarrow>
      execute_shell_command command s = (''Error: Dangerous command blocked'', s))
   \<and> (startswith line ''execute:'' \<and> contains (strip (drop 8 line)) ''rm -rf'' \<longrightarrow>
      handle_line line s =
        (Some (''Command: '' @ strip (drop 8 line) @ [nl]
                 @ ''Output: Error: Dangerous command blocked''), s))
   \<and> (\<exists>started. procs (snd (execute_from_response response s)) = procs s @ started \<and>
        (\<forall>c \<in> set started. \<not> list_ex (\<lambda>d. contains c d) dangerous))"
proof -
  have rm: "contains c ''rm -rf'' \<Longrightarrow> list_ex (\<lambda>d. contains c d) dangerous" for c
    by (simp add: dangerous_def)
  have 1: "list_ex (\<lambda>d. contains command d) dangerous \<longrightarrow>
      execute_shell_command command s = (''Error: Dangerous command blocked'', s)"
    by (simp add: blocked)
  have 2: "contains command ''rm -rf'' \<longrightarrow>
      execute_shell_command command s = (''Error: Dangerous command blocked'', s)"
    using rm blocked by blast
  have 3: "startswith line ''execute:'' \<and> contains (strip (drop 8 line)) ''rm -rf'' \<longrightarrow>
      handle_line line s =
        (Some (''Command: '' @ strip (drop 8 line) @ [nl]
                 @ ''Output: Error: Dangerous command blocked''), s)"
    using rm [of "strip (drop 8 line)"] by (simp add: handle_line_def Let_def blocked)
  have 4: "\<exists>started. procs (snd (execute_from_response response s)) = procs s @ started \<and>
        (\<forall>c \<in> set started. \<not> list_ex (\<lambda>d. contains c d) dangerous)"
    using execute_from_response_safe [of s response] by (simp add: starts_only_safe_def)
  from 1 2 3 4 show ?thesis by blast
qed

theorem dangerous_commands_blocked_witness:
  "list_ex (\<lambda>d. contains ''rm -rf /'' d) dangerous \<and>
   contains ''rm -rf /'' ''rm -rf'' \<and>
   startswith ''execute: rm -rf /'' ''execute:'' \<and>
   contains (strip (drop 8 ''execute: rm -rf /'')) ''rm -rf'' \<and>
   execute_shell_command ''rm -rf /'' sample_executor
     = (''Error: Dangerous command blocked'', sample_executor) \<and>
   handle_line ''execute: rm -rf /'' sample_executor
     = (Some (''Command: rm -rf /'' @ [nl] @ ''Output: Error: Dangerous command blocked''),
        sample_executor) \<and>
   procs (snd (execute_from_response (''execute: rm -rf /'' @ [nl] @ ''execute: ls'')
                 sample_executor))
     = procs sample_executor @ [''ls''] \<and>
   \<not> list_ex (\<lambda>d. contains ''ls'' d) dangerous"
proof -
  have h1: "list_ex (\<lambda>d. contains ''rm -rf /'' d) dangerous" by code_simp
  have h2: "contains ''rm -rf /'' ''rm -rf''" by code_simp
  have h3: "startswith ''execute: rm -rf /'' ''execute:''" by code_simp
  have h4: "strip (drop 8 ''execute: rm -rf /'') = ''rm -rf /''" by code_simp
  have h5: "procs (snd (execute_from_response (''execute: rm -rf /'' @ [nl] @ ''execute: ls'')
                 sample_executor)) = procs sample_executor @ [''ls'']"
    by code_simp
  have h6: "\<not> list_ex (\<lambda>d. contains ''ls'' d) dangerous" by code_simp
  from dangerous_commands_blocked [of "''rm -rf /''" sample_executor "''execute: rm -rf /''"]
    h1 h2 h3 h4 h5 h6
  show ?thesis by simp
qed

section \<open>Dispatch in the order of the lines\<close>



section \<open>Arguments of a tool line\<close>

text \<open>
  Claim C3. The line \<open>tool:calculator.add(a=2,b=3)\<close> of a reply is parsed into the
  plugin name \<open>calculator\<close>, the method name \<open>add\<close> and the arguments \<open>a\<close> and
  \<open>b\<close> with the strings \<open>2\<close> and \<open>3\<close>, and where such a plugin is loaded its
  \<open>add\<close> is called with just these strings (nothing is converted). For every tool call
  of the shape \<open>pluginName.methodName(key=value, ...)\<close>, the pairs split on commas
  give one argument each, the key stripped of white space and the value stripped of white
  space and then of quote characters, a later pair with the same key replacing the value
  of the earlier; the call goes to the plugin and method named.
\<close>

theorem tool_line_arguments:
  "parse_tool_call ''calculator.add(a=2,b=3)''
     = (''calculator'', ''add'', [(''a'', ''2''), (''b'', ''3'')])
   \<and> (map_of (plugins s) ''calculator'' = Some m \<and> enabled m \<and>
       map_of (plugin_modules s) ''calculator'' = Some md \<and> md ''add'' = Some f
      \<longrightarrow> fst (execute_from_response ''tool:calculator.add(a=2,b=3)'' s)
          = Some (''Tool: calculator.add(a=2,b=3)'' @ [nl] @ ''Result: ''
                   @ (case timed (timeout s) (f [(''a'', ''2''), (''b'', ''3'')]) of
                        Inl e \<Rightarrow> ''Tool execution error: '' @ str_exn e
                      | Inr r \<Rightarrow> r)))
   \<and> (well_shaped p mth kvs
      \<longrightarrow> parse_tool_call (tool_line p mth kvs)
          = (p, mth,
             fold (\<lambda>(k, v) args. AList.update (strip k) (strip_quotes (strip v)) args) kvs [])
        \<and> execute_tool_call_body (tool_line p mth kvs) s
          = call_execute_plugin p mth
              (fold (\<lambda>(k, v) args. AList.update (strip k) (strip_quotes (strip v)) args) kvs [])
              s)"
proof (intro conjI impI)
  show "parse_tool_call ''calculator.add(a=2,b=3)''
     = (''calculator'', ''add'', [(''a'', ''2''), (''b'', ''3'')])"
    by (rule calculator_line(8))
next
  assume a: "map_of (plugins s) ''calculator'' = Some m \<and> enabled m \<and>
       map_of (plugin_modules s) ''calculator'' = Some md \<and> md ''add'' = Some f"
  obtain r s' where c: "execute_tool_call ''calculator.add(a=2,b=3)'' s = (r, s')"
    by (cases "execute_tool_call ''calculator.add(a=2,b=3)'' s")
  from a have a1: "map_of (plugins s) ''calculator'' = Some m" and a2: "enabled m"
    and a3: "map_of (plugin_modules s) ''calculator'' = Some md" and a4: "md ''add'' = Some f"
    by blast+
  have "fst (execute_tool_call ''calculator.add(a=2,b=3)'' s)
     = (case timed (timeout s) (f [(''a'', ''2''), (''b'', ''3'')]) of
          Inl e \<Rightarrow> ''Tool execution error: '' @ str_exn e
        | Inr r \<Rightarrow> r)"
    by (rule calculator_call [OF a1 a2 a3 a4])
  with c have r: "r = (case timed (timeout s) (f [(''a'', ''2''), (''b'', ''3'')]) of
                        Inl e \<Rightarrow> ''Tool execution error: '' @ str_exn e
                      | Inr r \<Rightarrow> r)" by simp
  have "handle_line ''tool:calculator.add(a=2,b=3)'' s
       = (Some (''Tool: calculator.add(a=2,b=3)'' @ [nl] @ ''Result: '' @ r), s')"
    by (simp add: handle_line_def calculator_line c Let_def)
  then show "fst (execute_from_response ''tool:calculator.add(a=2,b=3)'' s)
          = Some (''Tool: calculator.add(a=2,b=3)'' @ [nl] @ ''Result: ''
                   @ (case timed (timeout s) (f [(''a'', ''2''), (''b'', ''3'')]) of
                        Inl e \<Rightarrow> ''Tool execution error: '' @ str_exn e
                      | Inr r \<Rightarrow> r))"
    unfolding r [symmetric]
    by (simp add: execute_from_response_def execute_from_response_body_def calculator_line
          del: split_sep.simps)
next
  assume w: "well_shaped p mth kvs"
  show "parse_tool_call (tool_line p mth kvs)
          = (p, mth,
             fold (\<lambda>(k, v) args. AList.update (strip k) (strip_quotes (strip v)) args) kvs [])"
    by (rule parse_tool_call_shape [OF w])
next
  assume w: "well_shaped p mth kvs"
  show "execute_tool_call_body (tool_line p mth kvs) s
          = call_execute_plugin p mth
              (fold (\<lambda>(k, v) args. AList.update (strip k) (strip_quotes (strip v)) args) kvs [])
              s"
    using parse_tool_call_shape [OF w]
    by (simp add: execute_tool_call_body_def tool_line_has)
qed

theorem tool_line_arguments_witness:
  "map_of (plugins sample_executor) ''calculator'' = Some calculator_manifest \<and>
   enabled calculator_manifest \<and>
   map_of (plugin_modules sample_executor) ''calculator'' = Some calculator_module \<and>
   calculator_module ''add'' = Some (\<lambda>kw. Run 0 (Inr (join ''+'' (map snd kw)))) \<and>
   fst (execute_from_response ''tool:calculator.add(a=2,b=3)'' sample_executor)
     = Some (''Tool: calculator.add(a=2,b=3)'' @ [nl] @ ''Result: 2+3'') \<and>
   well_shaped ''calculator'' ''add''
     [(''a'', ''2''), ('' b '', '' '' @ [CHR 0x22] @ ''3'' @ [CHR 0x22] @ '' '')] \<and>
   tool_line ''calculator'' ''add''
     [(''a'', ''2''), ('' b '', '' '' @ [CHR 0x22] @ ''3'' @ [CHR 0x22] @ '' '')]
     = ''calculator.add(a=2, b = '' @ [CHR 0x22] @ ''3'' @ [CHR 0x22] @ '' )'' \<and>
   parse_tool_call
     (tool_line ''calculator'' ''add''
        [(''a'', ''2''), ('' b '', '' '' @ [CHR 0x22] @ ''3'' @ [CHR 0x22] @ '' '')])
     = (''calculator'', ''add'', [(''a'', ''2''), (''b'', ''3'')])"
proof -
  let ?kvs = "[(''a'', ''2''), ('' b '', '' '' @ [CHR 0x22] @ ''3'' @ [CHR 0x22] @ '' '')]"
  let ?f = "\<lambda>kw :: kwargs. Run 0 (Inr (join ''+'' (map snd kw)))"
  have h1: "map_of (plugins sample_executor) ''calculator'' = Some calculator_manifest"
    by (simp add: sample_defs)
  have h2: "enabled calculator_manifest" by (simp add: sample_defs)
  have h3: "map_of (plugin_modules sample_executor) ''calculator'' = Some calculator_module"
    by (simp add: sample_defs)
  have h4: "calculator_module ''add'' = Some ?f" by (simp add: calculator_module_def)
  have h5: "well_shaped ''calculator'' ''add'' ?kvs" by (simp add: well_shaped_def)
  have h6: "tool_line ''calculator'' ''add'' ?kvs
     = ''calculator.add(a=2, b = '' @ [CHR 0x22] @ ''3'' @ [CHR 0x22] @ '' )''"
    by (simp add: tool_line_def)
  have h7: "fold (\<lambda>(k, v) args. AList.update (strip k) (strip_quotes (strip v)) args) ?kvs []
     = [(''a'', ''2''), (''b'', ''3'')]"
    by code_simp
  have h8: "timeout sample_executor = 300" by (simp add: sample_defs)
  note t = tool_line_arguments [of sample_executor calculator_manifest calculator_module ?f
      "''calculator''" "''add''" ?kvs]
  from t h1 h2 h3 h4
  have c1: "fst (execute_from_response ''tool:calculator.add(a=2,b=3)'' sample_executor)
          = Some (''Tool: calculator.add(a=2,b=3)'' @ [nl] @ ''Result: ''
                   @ (case timed (timeout sample_executor) (?f [(''a'', ''2''), (''b'', ''3'')]) of
                        Inl e \<Rightarrow> ''Tool execution error: '' @ str_exn e
                      | Inr r \<Rightarrow> r))"
    by blast
  have c1': "fst (execute_from_response ''tool:calculator.add(a=2,b=3)'' sample_executor)
     = Some (''Tool: calculator.add(a=2,b=3)'' @ [nl] @ ''Result: 2+3'')"
    unfolding c1 h8 by (simp add: timed_def)
  from t h5 have c2: "parse_tool_call (tool_line ''calculator'' ''add'' ?kvs)
     = (''calculator'', ''add'',
        fold (\<lambda>(k, v) args. AList.update (strip k) (strip_quotes (strip v)) args) ?kvs [])"
    by blast
  show ?thesis
    by (intro conjI) (rule h1 h2 h3 h4 c1' h5 h6 c2 [unfolded h7])+
qed

section \<open>Errors of an invocation\<close>



section \<open>Model selection\<close>

text \<open>
  Claim C6, amended. \<open>select_model\<close> returns the requested model when its provider
  has a client. Otherwise it classifies the prompt by the keywords its lower-case text
  contains (coding before reasoning before creative, reasoning when none is found) and
  takes the model the preference table gives for the class, or \<open>claude\<close> when the
  table has no entry for it; it returns that model if its provider has a client, and the
  first client otherwise. It raises exactly when there is no client. Where the table has
  an entry for the class, this is the selection as the specification words it.
\<close>

theorem select_model_cases:
  "(is_model_available r requested \<longrightarrow> select_model r requested p = Inr requested)
   \<and> (\<not> is_model_available r requested \<and>
       is_model_available r
         (case model_preferences r (classify_task p) of None \<Rightarrow> ''claude'' | Some x \<Rightarrow> x)
      \<longrightarrow> select_model r requested p
          = Inr (case model_preferences r (classify_task p) of None \<Rightarrow> ''claude'' | Some x \<Rightarrow> x))
   \<and> (\<not> is_model_available r requested \<and>
       \<not> is_model_available r
         (case model_preferences r (classify_task p) of None \<Rightarrow> ''claude'' | Some x \<Rightarrow> x) \<and>
       clients r \<noteq> []
      \<longrightarrow> select_model r requested p = Inr (hd (clients r)))
   \<and> ((\<exists>e. select_model r requested p = Inl e) = (clients r = []))
   \<and> classify_task p \<in> {''coding'', ''reasoning'', ''creative''}
   \<and> ((classify_task p = ''coding'')
        = list_ex (\<lambda>keyword. contains (lower p) keyword)
            [''code'', ''program'', ''function'', ''debug'', ''api'', ''sql'', ''python'',
             ''javascript''])
   \<and> ((classify_task p = ''creative'')
        = (\<not> list_ex (\<lambda>keyword. contains (lower p) keyword)
               [''code'', ''program'', ''function'', ''debug'', ''api'', ''sql'', ''python'',
                ''javascript''] \<and>
           \<not> list_ex (\<lambda>keyword. contains (lower p) keyword)
               [''analyze'', ''reason'', ''logic'', ''problem'', ''solve'', ''strategy'',
                ''plan''] \<and>
           list_ex (\<lambda>keyword. contains (lower p) keyword)
               [''write'', ''create'', ''story'', ''poem'', ''creative'', ''brainstorm'',
                ''imagine'']))
   \<and> (model_preferences r (classify_task p) \<noteq> None
      \<longrightarrow> select_model r requested p = select_model_spec r requested p)"
proof (intro conjI impI)
  assume "is_model_available r requested"
  moreover from this have "requested \<noteq> ''auto''"
    by (auto simp add: is_model_available_def model_map_def)
  ultimately show "select_model r requested p = Inr requested"
    by (simp add: select_model_def)
next
  assume "\<not> is_model_available r requested \<and>
       is_model_available r
         (case model_preferences r (classify_task p) of None \<Rightarrow> ''claude'' | Some x \<Rightarrow> x)"
  then show "select_model r requested p
          = Inr (case model_preferences r (classify_task p) of None \<Rightarrow> ''claude'' | Some x \<Rightarrow> x)"
    by (simp add: select_model_def Let_def)
next
  assume "\<not> is_model_available r requested \<and>
       \<not> is_model_available r
         (case model_preferences r (classify_task p) of None \<Rightarrow> ''claude'' | Some x \<Rightarrow> x) \<and>
       clients r \<noteq> []"
  then show "select_model r requested p = Inr (hd (clients r))"
    by (cases "clients r") (simp_all add: select_model_def Let_def)
next
  show "(\<exists>e. select_model r requested p = Inl e) = (clients r = [])"
  proof (cases "clients r")
    case Nil
    then show ?thesis by (simp add: select_model_def Let_def not_available_Nil)
  next
    case (Cons a list)
    then show ?thesis by (simp add: select_model_def Let_def)
  qed
next
  show "classify_task p \<in> {''coding'', ''reasoning'', ''creative''}"
    by (simp add: classify_task_def Let_def)
next
  show "(classify_task p = ''coding'')
        = list_ex (\<lambda>keyword. contains (lower p) keyword)
            [''code'', ''program'', ''function'', ''debug'', ''api'', ''sql'', ''python'',
             ''javascript'']"
    by (simp add: classify_task_def Let_def)
next
  show "(classify_task p = ''creative'')
        = (\<not> list_ex (\<lambda>keyword. contains (lower p) keyword)
               [''code'', ''program'', ''function'', ''debug'', ''api'', ''sql'', ''python'',
                ''javascript''] \<and>
           \<not> list_ex (\<lambda>keyword. contains (lower p) keyword)
               [''analyze'', ''reason'', ''logic'', ''problem'', ''solve'', ''strategy'',
                ''plan''] \<and>
           list_ex (\<lambda>keyword. contains (lower p) keyword)
               [''write'', ''create'', ''story'', ''poem'', ''creative'', ''brainstorm'',
                ''imagine''])"
    by (simp add: classify_task_def Let_def)
next
  assume "model_preferences r (classify_task p) \<noteq> None"
  then obtain x where x: "model_preferences r (classify_task p) = Some x" by blast
  have auto: "\<not> is_model_available r ''auto''"
    by (simp add: is_model_available_def model_map_def)
  show "select_model r requested p = select_model_spec r requested p"
    using x auto
    by (cases "requested = ''auto''")
       (simp_all add: select_model_def select_model_spec_def Let_def)
qed

text \<open>
  As stated, without the default, the claim fails: with clients for \<open>openai\<close> and
  \<open>claude\<close> and an empty table, the code answers \<open>claude\<close> where the specification's
  wording gives the first client, \<open>openai\<close>.
\<close>

theorem select_model_default_counterexample:
  "select_model bare_router ''auto'' ''hello'' = Inr ''claude'' \<and>
   select_model_spec bare_router ''auto'' ''hello'' = Inr ''openai''"
  by code_simp

theorem select_model_cases_witness:
  "is_model_available default_router ''gpt4'' \<and>
   select_model default_router ''gpt4'' ''hello'' = Inr ''gpt4'' \<and>
   \<not> is_model_available default_router ''gemini'' \<and>
   classify_task ''Debug this function'' = ''coding'' \<and>
   is_model_available default_router ''gpt4'' \<and>
   select_model default_router ''gemini'' ''Debug this function'' = Inr ''gpt4'' \<and>
   classify_task ''Write a poem'' = ''creative'' \<and>
   clients default_router \<noteq> [] \<and>
   select_model default_router ''gemini'' ''Write a poem'' = Inr ''openai'' \<and>
   clients keyless_router = [] \<and>
   (\<exists>e. select_model keyless_router ''claude'' ''hello'' = Inl e) \<and>
   model_preferences default_router (classify_task ''Write a poem'') \<noteq> None \<and>
   select_model default_router ''gemini'' ''Write a poem''
     = select_model_spec default_router ''gemini'' ''Write a poem''"
proof -
  have h1: "is_model_available default_router ''gpt4''" by code_simp
  have h2: "\<not> is_model_available default_router ''gemini''" by code_simp
  have h3: "classify_task ''Debug this function'' = ''coding''" by code_simp
  have h4: "model_preferences default_router ''coding'' = Some ''gpt4''"
    by (simp add: default_router_def default_preferences_def)
  have h5: "classify_task ''Write a poem'' = ''creative''" by code_simp
  have h6: "model_preferences default_router ''creative'' = Some ''gemini''"
    by (simp add: default_router_def default_preferences_def)
  have h7: "clients default_router \<noteq> []" by (simp add: default_router_def)
  have h8: "hd (clients default_router) = ''openai''" by (simp add: default_router_def)
  have h9: "clients keyless_router = []" by (simp add: keyless_router_def)
  from select_model_cases [of default_router "''gpt4''" "''hello''"] h1
  have c1: "select_model default_router ''gpt4'' ''hello'' = Inr ''gpt4''" by blast
  from select_model_cases [of default_router "''gemini''" "''Debug this function''"] h1 h2
  have c2: "select_model default_router ''gemini'' ''Debug this function'' = Inr ''gpt4''"
    by (simp add: h3 h4)
  note t = select_model_cases [of default_router "''gemini''" "''Write a poem''"]
  from t h2 h7 have c3: "select_model default_router ''gemini'' ''Write a poem'' = Inr ''openai''"
    by (simp add: h5 h6 h8)
  from select_model_cases [of keyless_router "''claude''" "''hello''"] h9
  have c4: "\<exists>e. select_model keyless_router ''claude'' ''hello'' = Inl e" by blast
  have h10: "model_preferences default_router (classify_task ''Write a poem'') \<noteq> None"
    by (simp add: h5 h6)
  from t h10 have c5: "select_model default_router ''gemini'' ''Write a poem''
     = select_model_spec default_router ''gemini'' ''Write a poem''" by blast
  show ?thesis
    by (intro conjI) (rule h1 h2 h3 h5 h7 h9 h10 c1 c2 c3 c4 c5)+
qed

section \<open>Toggling off and on again\<close>

text \<open>
  Claim C5, amended. From a state in which the plugin is registered under its name,
  enabled and loaded: if \<open>toggle_plugin(name, False)\<close> returns true, the manifest file
  \<open>plugin_dir/name/manifest.json\<close> then holds the manifest with the flag false, as the
  registry does, and the module is gone; if the \<open>toggle_plugin(name, True)\<close> that
  follows returns true as well, file and registry both hold the flag true, and the module
  is there again exactly when the entry point file on the disk loads without an error.
  \<open>toggle_plugin\<close> returns false (it has no way to raise) for an unknown name and when
  writing the manifest fails.
\<close>

theorem toggle_round_trip:
  "(map_of (plugins s) nm = Some m \<and> name m = nm \<and> enabled m \<and>
    nm \<in> fst ` set (plugin_modules s)
    \<longrightarrow> (case toggle_plugin nm False s of (r1, s1) \<Rightarrow>
          (r1 \<longrightarrow>
             read_manifest (disk s1) (plugin_dir s @ [nm, ''manifest.json''])
               = Inr (m\<lparr>enabled := False\<rparr>) \<and>
             map_of (plugins s1) nm = Some (m\<lparr>enabled := False\<rparr>) \<and>
             nm \<notin> fst ` set (plugin_modules s1)) \<and>
          (case toggle_plugin nm True s1 of (r2, s2) \<Rightarrow>
             (r1 \<and> r2 \<longrightarrow>
                read_manifest (disk s2) (plugin_dir s @ [nm, ''manifest.json''])
                  = Inr (m\<lparr>enabled := True\<rparr>) \<and>
                map_of (plugins s2) nm = Some (m\<lparr>enabled := True\<rparr>) \<and>
                (nm \<in> fst ` set (plugin_modules s2))
                  = (\<exists>md. exec_module (disk s2) (plugin_dir s @ [nm, entry_point m])
                            = Inr md)))))
   \<and> (map_of (plugins s) nm = None \<longrightarrow> fst (toggle_plugin nm en s) = False)
   \<and> (map_of (plugins s) nm = Some m \<and>
       write_file (disk s) (plugin_dir s @ [nm, ''manifest.json''])
         (json_dump (m\<lparr>enabled := en\<rparr>)) = Inl e
      \<longrightarrow> fst (toggle_plugin nm en s) = False)"
proof (intro conjI impI)
  assume a: "map_of (plugins s) nm = Some m \<and> name m = nm \<and> enabled m \<and>
    nm \<in> fst ` set (plugin_modules s)"
  then have reg: "map_of (plugins s) nm = Some m" and nm: "name m = nm"
    and loaded: "nm \<in> fst ` set (plugin_modules s)"
    by blast+
  obtain r1 s1 where t1: "toggle_plugin nm False s = (r1, s1)"
    by (cases "toggle_plugin nm False s")
  obtain r2 s2 where t2: "toggle_plugin nm True s1 = (r2, s2)"
    by (cases "toggle_plugin nm True s1")
  have off: "read_manifest (disk s1) (plugin_dir s @ [nm, ''manifest.json''])
               = Inr (m\<lparr>enabled := False\<rparr>) \<and>
             map_of (plugins s1) nm = Some (m\<lparr>enabled := False\<rparr>) \<and>
             nm \<notin> fst ` set (plugin_modules s1) \<and> plugin_dir s1 = plugin_dir s" if r1
    using toggle_off [OF reg loaded, of s1] t1 that by simp
  have on: "read_manifest (disk s2) (plugin_dir s @ [nm, ''manifest.json''])
                  = Inr (m\<lparr>enabled := True\<rparr>) \<and>
                map_of (plugins s2) nm = Some (m\<lparr>enabled := True\<rparr>) \<and>
                (nm \<in> fst ` set (plugin_modules s2))
                  = (\<exists>md. exec_module (disk s2) (plugin_dir s @ [nm, entry_point m])
                            = Inr md)" if r1 r2
  proof -
    from off [OF \<open>r1\<close>] have reg1: "map_of (plugins s1) nm = Some (m\<lparr>enabled := False\<rparr>)"
      and absent: "nm \<notin> fst ` set (plugin_modules s1)" and dir: "plugin_dir s1 = plugin_dir s"
      by blast+
    have nm1: "name (m\<lparr>enabled := False\<rparr>) = nm" using nm by simp
    from t2 \<open>r2\<close> have t2': "toggle_plugin nm True s1 = (True, s2)" by simp
    from toggle_on [OF reg1 nm1 absent t2'] show ?thesis by (simp add: dir)
  qed
  show "case toggle_plugin nm False s of (r1, s1) \<Rightarrow>
          (r1 \<longrightarrow>
             read_manifest (disk s1) (plugin_dir s @ [nm, ''manifest.json''])
               = Inr (m\<lparr>enabled := False\<rparr>) \<and>
             map_of (plugins s1) nm = Some (m\<lparr>enabled := False\<rparr>) \<and>
             nm \<notin> fst ` set (plugin_modules s1)) \<and>
          (case toggle_plugin nm True s1 of (r2, s2) \<Rightarrow>
             (r1 \<and> r2 \<longrightarrow>
                read_manifest (disk s2) (plugin_dir s @ [nm, ''manifest.json''])
                  = Inr (m\<lparr>enabled := True\<rparr>) \<and>
                map_of (plugins s2) nm = Some (m\<lparr>enabled := True\<rparr>) \<and>
                (nm \<in> fst ` set (plugin_modules s2))
                  = (\<exists>md. exec_module (disk s2) (plugin_dir s @ [nm, entry_point m])
                            = Inr md)))"
    unfolding t1 prod.case t2 using off on by blast
next
  assume "map_of (plugins s) nm = None"
  then show "fst (toggle_plugin nm en s) = False" by (rule toggle_unknown)
next
  assume "map_of (plugins s) nm = Some m \<and>
       write_file (disk s) (plugin_dir s @ [nm, ''manifest.json''])
         (json_dump (m\<lparr>enabled := en\<rparr>)) = Inl e"
  then show "fst (toggle_plugin nm en s) = False"
    using toggle_not_written by blast
qed

text \<open>
  As stated, for every such state, the claim fails twice over. With the manifest file
  write-protected the first toggle returns false: the flag in the registry is false, the
  file still says true, and the module is still loaded. With the entry point file gone
  both toggles return true, and the module is absent after the second.
\<close>

theorem toggle_round_trip_counterexample:
  "map_of (plugins locked_executor) ''calculator'' = Some calculator_manifest \<and>
   enabled calculator_manifest \<and>
   map_of (plugin_modules locked_executor) ''calculator'' = Some calculator_module \<and>
   fst (toggle_plugin ''calculator'' False locked_executor) = False \<and>
   map_of (plugins (snd (toggle_plugin ''calculator'' False locked_executor))) ''calculator''
     = Some (calculator_manifest\<lparr>enabled := False\<rparr>) \<and>
   lookup (disk (snd (toggle_plugin ''calculator'' False locked_executor)))
       [''plugins'', ''calculator'', ''manifest.json'']
     = Some (File (json_dump calculator_manifest)) \<and>
   map_of (plugin_modules (snd (toggle_plugin ''calculator'' False locked_executor)))
       ''calculator''
     = Some calculator_module \<and>
   map_of (plugins orphaned_executor) ''calculator'' = Some calculator_manifest \<and>
   map_of (plugin_modules orphaned_executor) ''calculator'' = Some calculator_module \<and>
   fst (toggle_plugin ''calculator'' False orphaned_executor) = True \<and>
   fst (toggle_plugin ''calculator'' True
          (snd (toggle_plugin ''calculator'' False orphaned_executor))) = True \<and>
   map_of (plugin_modules
             (snd (toggle_plugin ''calculator'' True
                     (snd (toggle_plugin ''calculator'' False orphaned_executor)))))
       ''calculator''
     = None"
  by (simp add: toggle_eval sample_defs fs_defs orphaned_executor_def)

theorem toggle_round_trip_witness:
  "map_of (plugins sample_executor) ''calculator'' = Some calculator_manifest \<and>
   name calculator_manifest = ''calculator'' \<and>
   enabled calculator_manifest \<and>
   ''calculator'' \<in> fst ` set (plugin_modules sample_executor) \<and>
   fst (toggle_plugin ''calculator'' False sample_executor) = True \<and>
   read_manifest (disk (snd (toggle_plugin ''calculator'' False sample_executor)))
       [''plugins'', ''calculator'', ''manifest.json'']
     = Inr (calculator_manifest\<lparr>enabled := False\<rparr>) \<and>
   map_of (plugins (snd (toggle_plugin ''calculator'' False sample_executor))) ''calculator''
     = Some (calculator_manifest\<lparr>enabled := False\<rparr>) \<and>
   ''calculator'' \<notin> fst ` set (plugin_modules
                                  (snd (toggle_plugin ''calculator'' False sample_executor))) \<and>
   fst (toggle_plugin ''calculator'' True
          (snd (toggle_plugin ''calculator'' False sample_executor))) = True \<and>
   read_manifest
       (disk (snd (toggle_plugin ''calculator'' True
                     (snd (toggle_plugin ''calculator'' False sample_executor)))))
       [''plugins'', ''calculator'', ''manifest.json'']
     = Inr (calculator_manifest\<lparr>enabled := True\<rparr>) \<and>
   map_of (plugins (snd (toggle_plugin ''calculator'' True
                           (snd (toggle_plugin ''calculator'' False sample_executor)))))
       ''calculator''
     = Some (calculator_manifest\<lparr>enabled := True\<rparr>) \<and>
   exec_module
       (disk (snd (toggle_plugin ''calculator'' True
                     (snd (toggle_plugin ''calculator'' False sample_executor)))))
       [''plugins'', ''calculator'', ''calculator.py'']
     = Inr calculator_module \<and>
   ''calculator'' \<in> fst ` set (plugin_modules
                                (snd (toggle_plugin ''calculator'' True
                                        (snd (toggle_plugin ''calculator'' False
                                                sample_executor))))) \<and>
   map_of (plugins sample_executor) ''weather'' = None \<and>
   fst (toggle_plugin ''weather'' True sample_executor) = False \<and>
   write_file (disk locked_executor) [''plugins'', ''calculator'', ''manifest.json'']
       (json_dump (calculator_manifest\<lparr>enabled := False\<rparr>))
     = Inl (Foreign ''PermissionError'' ''plugins/calculator/manifest.json'') \<and>
   fst (toggle_plugin ''calculator'' False locked_executor) = False"
proof -
  let ?s1 = "snd (toggle_plugin ''calculator'' False sample_executor)"
  let ?s2 = "snd (toggle_plugin ''calculator'' True ?s1)"
  let ?e = "Foreign ''PermissionError'' ''plugins/calculator/manifest.json''"
  have h1: "map_of (plugins sample_executor) ''calculator'' = Some calculator_manifest"
    by (simp add: sample_defs)
  have h2: "name calculator_manifest = ''calculator''" by (simp add: sample_defs)
  have h3: "enabled calculator_manifest" by (simp add: sample_defs)
  have h4: "''calculator'' \<in> fst ` set (plugin_modules sample_executor)"
    by (simp add: sample_defs)
  have dir: "plugin_dir sample_executor = [''plugins'']" by (simp add: sample_defs)
  have ep: "entry_point calculator_manifest = ''calculator.py''" by (simp add: sample_defs)
  have r1: "fst (toggle_plugin ''calculator'' False sample_executor) = True"
    by (simp add: toggle_sample_off)
  have r2: "fst (toggle_plugin ''calculator'' True ?s1) = True"
    by (simp add: toggle_sample_off toggle_eval sample_defs fs_defs)
  have ex: "exec_module (disk ?s2) [''plugins'', ''calculator'', ''calculator.py'']
     = Inr calculator_module"
    by (simp add: toggle_sample_off toggle_eval sample_defs fs_defs)
  have h5: "map_of (plugins sample_executor) ''weather'' = None" by (simp add: sample_defs)
  have h6: "map_of (plugins locked_executor) ''calculator'' = Some calculator_manifest"
    by (simp add: sample_defs)
  have h7: "write_file (disk locked_executor) [''plugins'', ''calculator'', ''manifest.json'']
       (json_dump (calculator_manifest\<lparr>enabled := False\<rparr>)) = Inl ?e"
    by (simp add: sample_defs fs_defs)
  have ldir: "plugin_dir locked_executor = [''plugins'']" by (simp add: sample_defs)
  note t = toggle_round_trip [of sample_executor "''calculator''" calculator_manifest True ?e]
  from t [THEN conjunct1] h1 h2 h3 h4 have
    "(fst (toggle_plugin ''calculator'' False sample_executor) \<longrightarrow>
        read_manifest (disk ?s1) [''plugins'', ''calculator'', ''manifest.json'']
          = Inr (calculator_manifest\<lparr>enabled := False\<rparr>) \<and>
        map_of (plugins ?s1) ''calculator'' = Some (calculator_manifest\<lparr>enabled := False\<rparr>) \<and>
        ''calculator'' \<notin> fst ` set (plugin_modules ?s1)) \<and>
     (fst (toggle_plugin ''calculator'' False sample_executor) \<and>
      fst (toggle_plugin ''calculator'' True ?s1) \<longrightarrow>
        read_manifest (disk ?s2) [''plugins'', ''calculator'', ''manifest.json'']
          = Inr (calculator_manifest\<lparr>enabled := True\<rparr>) \<and>
        map_of (plugins ?s2) ''calculator'' = Some (calculator_manifest\<lparr>enabled := True\<rparr>) \<and>
        (''calculator'' \<in> fst ` set (plugin_modules ?s2))
          = (\<exists>md. exec_module (disk ?s2) [''plugins'', ''calculator'', ''calculator.py'']
                    = Inr md))"
    by (simp only: dir ep case_prod_beta append_Cons append_Nil simp_thms)
  with r1 r2 ex have
    c1: "read_manifest (disk ?s1) [''plugins'', ''calculator'', ''manifest.json'']
          = Inr (calculator_manifest\<lparr>enabled := False\<rparr>)"
    and c2: "map_of (plugins ?s1) ''calculator'' = Some (calculator_manifest\<lparr>enabled := False\<rparr>)"
    and c3: "''calculator'' \<notin> fst ` set (plugin_modules ?s1)"
    and c4: "read_manifest (disk ?s2) [''plugins'', ''calculator'', ''manifest.json'']
          = Inr (calculator_manifest\<lparr>enabled := True\<rparr>)"
    and c5: "map_of (plugins ?s2) ''calculator'' = Some (calculator_manifest\<lparr>enabled := True\<rparr>)"
    and c6: "''calculator'' \<in> fst ` set (plugin_modules ?s2)"
    by blast+
  from toggle_round_trip [of sample_executor "''weather''" calculator_manifest True ?e] h5
  have c7: "fst (toggle_plugin ''weather'' True sample_executor) = False" by blast
  from toggle_round_trip [of locked_executor "''calculator''" calculator_manifest False ?e,
      THEN conjunct2, THEN conjunct2] h6 h7
  have c8: "fst (toggle_plugin ''calculator'' False locked_executor) = False"
    by (simp only: ldir append_Cons append_Nil simp_thms)
  show ?thesis
    by (intro conjI) (rule h1 h2 h3 h4 r1 r2 ex h5 h7 c1 c2 c3 c4 c5 c6 c7 c8)+
qed

section \<open>Failure of a task\<close>



section \<open>Failures of the registry operations\<close>




end
